theory Spec2Isabelle
  imports Complex_Main "HOL-Library.Word"
begin

unbundle bit_operations_syntax

section \<open>Internet audio streaming: llstreamingaudio\_fmodstudio.cpp\<close>

text \<open>
  A shallow embedding of the streaming controller \<open>LLStreamingAudio_FMODSTUDIO\<close>, of its
  stream handle \<open>LLAudioStreamManagerFMODSTUDIO\<close>, of the waveform ring buffer fed by
  \<open>waveDataCallback\<close> and of the tag text decoding done in \<open>update\<close>.

  Conventions. \<open>F32\<close> values are modelled as \<open>real\<close> (rounding and NaN play no role in
  the properties below). The \<open>U32\<close> counters of the ring buffer are \<open>nat\<close>; they stay
  below 1025 on every state satisfying \<open>wave_inv\<close>, so no wrap-around occurs.
  Bytes are \<open>8 word\<close>, UTF-16 code units are \<open>16 word\<close>.
\<close>

subsection \<open>The waveform ring buffer (globals and \<open>waveDataCallback\<close>)\<close>

definition WAVE_BUFFER_SIZE :: nat where
  "WAVE_BUFFER_SIZE = 1024"

record 'a wave_globals =
  gWaveBufferMinSize :: nat
  gWaveDataBuffer :: "'a list"
  gWaveDataBufferSize :: nat

text \<open>
  \<open>memcpy(buf + dst, buf + src, n * sizeof(float))\<close> inside one array, for regions that
  lie in the array and do not overlap.
\<close>

definition memcpy_within :: "nat \<Rightarrow> nat \<Rightarrow> nat \<Rightarrow> 'a list \<Rightarrow> 'a list" where
  "memcpy_within dst src n buf = take dst buf @ take n (drop src buf) @ drop (dst + n) buf"

text \<open>
  One iteration of the loop under the mutex (source lines 103 to 109): the fill count is
  incremented first; when it passes the capacity, the first \<open>gWaveBufferMinSize\<close> slots
  are copied to the end of the array and the fill count restarts at one more than that;
  then the sample is stored at \<open>WAVE_BUFFER_SIZE - gWaveDataBufferSize\<close>.
\<close>

definition wave_store :: "'a \<Rightarrow> 'a wave_globals \<Rightarrow> 'a wave_globals" where
  "wave_store x g =
     (let g1 =
        (if Suc (gWaveDataBufferSize g) > WAVE_BUFFER_SIZE
         then g\<lparr>gWaveDataBuffer :=
                  (if gWaveBufferMinSize g \<noteq> 0
                   then memcpy_within (WAVE_BUFFER_SIZE - gWaveBufferMinSize g) 0
                          (gWaveBufferMinSize g) (gWaveDataBuffer g)
                   else gWaveDataBuffer g),
                gWaveDataBufferSize := 1 + gWaveBufferMinSize g\<rparr>
         else g\<lparr>gWaveDataBufferSize := Suc (gWaveDataBufferSize g)\<rparr>)
      in g1\<lparr>gWaveDataBuffer :=
              (gWaveDataBuffer g1)[WAVE_BUFFER_SIZE - gWaveDataBufferSize g1 := x]\<rparr>)"

text \<open>
  The loop \<open>for (U32 i = length; i > 0; --i)\<close> stores \<open>local_buf[i - 1]\<close>: the block is
  walked from its last sample to its first.
\<close>

definition wave_write :: "'a list \<Rightarrow> 'a wave_globals \<Rightarrow> 'a wave_globals" where
  "wave_write local_buf g = fold wave_store (rev local_buf) g"

text \<open>
  The callback: nothing happens for an empty block or no channels; otherwise every frame
  is mixed down to the mean of its channels and the block is written to the ring. (The copy
  of the input to the output buffer does not touch the ring and is left out.)
\<close>

definition mix_down :: "real list \<Rightarrow> nat \<Rightarrow> nat \<Rightarrow> real list" where
  "mix_down inbuffer len inchannels =
     map (\<lambda>i. (\<Sum>j\<leftarrow>[0..<inchannels]. inbuffer ! (i * inchannels + j)) / real inchannels)
       [0..<len]"

definition waveDataCallback ::
  "real list \<Rightarrow> nat \<Rightarrow> nat \<Rightarrow> real wave_globals \<Rightarrow> real wave_globals" where
  "waveDataCallback inbuffer len inchannels g =
     (if len = 0 \<or> inchannels = 0 then g
      else wave_write (mix_down inbuffer len inchannels) g)"

text \<open>
  The samples a reader sees: \<open>getWaveData\<close> reads from
  \<open>gWaveDataBuffer + WAVE_BUFFER_SIZE - gWaveDataBufferSize\<close> to the end of the array.
\<close>

definition wave_window :: "'a wave_globals \<Rightarrow> 'a list" where
  "wave_window g = drop (WAVE_BUFFER_SIZE - gWaveDataBufferSize g) (gWaveDataBuffer g)"

definition wave_inv :: "'a wave_globals \<Rightarrow> bool" where
  "wave_inv g \<longleftrightarrow>
     length (gWaveDataBuffer g) = WAVE_BUFFER_SIZE \<and>
     gWaveDataBufferSize g \<le> WAVE_BUFFER_SIZE \<and>
     gWaveBufferMinSize g \<le> WAVE_BUFFER_SIZE div 2"

text \<open>The globals as the program starts: a zeroed array, nothing filled, no watermark.\<close>

definition wave_init :: "'a::zero wave_globals" where
  "wave_init = \<lparr>gWaveBufferMinSize = 0, gWaveDataBuffer = replicate WAVE_BUFFER_SIZE 0,
                gWaveDataBufferSize = 0\<rparr>"

subsection \<open>Text decoding of tag payloads\<close>

type_synonym byte = "8 word"

text \<open>
  The payload of a tag is read through a \<open>char*\<close>. Whether plain \<open>char\<close> is signed is
  fixed by the compiler, not by the source, so it is a parameter: \<open>char_value\<close> is the
  value of a \<open>char\<close> after integer promotion, which is what a comparison with a
  constant such as \<open>0xFE\<close> sees.
\<close>

definition char_value :: "bool \<Rightarrow> byte \<Rightarrow> int" where
  "char_value char_signed c = (if char_signed then sint c else uint c)"

datatype utf_endian_type_t = UTF16LE | UTF16BE | UTF16

text \<open>
  \<open>llutf16string out_16((U16*)input, len / 2)\<close>: the bytes are read in pairs as 16-bit units
  in the byte order of the host, which is little-endian on the platforms of the viewer.
\<close>

definition read_u16 :: "byte \<Rightarrow> byte \<Rightarrow> 16 word" where
  "read_u16 b0 b1 = ucast b0 OR push_bit 8 (ucast b1)"

fun u16_units :: "byte list \<Rightarrow> 16 word list" where
  "u16_units (b0 # b1 # rest) = read_u16 b0 b1 # u16_units rest"
| "u16_units rest = []"

text \<open>The swap of the loop at source lines 246 to 250.\<close>

definition swap_u16 :: "16 word \<Rightarrow> 16 word" where
  "swap_u16 v = push_bit 8 (v AND 0x00FF) OR drop_bit 8 (v AND 0xFF00)"

text \<open>
  \<open>utf16input_to_utf8\<close> up to its last line: the 16-bit units handed to
  \<open>utf16str_to_utf8str\<close>. The length \<open>len\<close> is the length of the byte list. In the source
  the marker test is followed by \<open>input += 2; len -= 2;\<close> and only then by
  \<open>type = input[0] == 0xFE ? UTF16BE : UTF16LE\<close>, so the byte that decides the type is
  the first byte after the marker.
\<close>

definition utf16input_units :: "bool \<Rightarrow> byte list \<Rightarrow> utf_endian_type_t \<Rightarrow> 16 word list" where
  "utf16input_units char_signed input0 type0 =
     (let bom = (type0 = UTF16 \<and> length input0 > 2 \<and>
                 ((char_value char_signed (input0 ! 0) = 0xFE \<and>
                   char_value char_signed (input0 ! 1) = 0xFF) \<or>
                  (char_value char_signed (input0 ! 0) = 0xFF \<and>
                   char_value char_signed (input0 ! 1) = 0xFE)));
          input = (if bom then drop 2 input0 else input0);
          type = (if type0 = UTF16
                  then (if bom
                        then (if char_value char_signed (input ! 0) = 0xFE then UTF16BE
                              else UTF16LE)
                        else UTF16BE)
                  else type0);
          out_16 = u16_units input @
                   (if odd (length input) then [push_bit 8 (ucast (last input))] else [])
      in if type = UTF16BE then map swap_u16 out_16 else out_16)"

text \<open>
  What the compiler and the rest of the viewer supply: the signedness of \<open>char\<close>, the
  two string converters of \<open>llstring\<close> (their code is not part of the sources at hand and
  no property below depends on what they compute) and the reinterpretation of a payload
  as \<open>LLSD::Integer\<close>, \<open>LLSD::Float\<close> and \<open>float\<close>.
\<close>

record platform =
  char_is_signed :: bool
  rawstr_to_utf8 :: "byte list \<Rightarrow> byte list"
  utf16str_to_utf8str :: "16 word list \<Rightarrow> byte list"
  as_integer :: "byte list \<Rightarrow> int"
  as_float64 :: "byte list \<Rightarrow> real"
  as_float32 :: "byte list \<Rightarrow> real"

definition utf16input_to_utf8 :: "platform \<Rightarrow> byte list \<Rightarrow> utf_endian_type_t \<Rightarrow> byte list" where
  "utf16input_to_utf8 P input type =
     utf16str_to_utf8str P (utf16input_units (char_is_signed P) input type)"

text \<open>\<open>if (out.length() && out.back() == 0) out.pop_back();\<close>\<close>

definition strip_trailing_nul :: "byte list \<Rightarrow> byte list" where
  "strip_trailing_nul out = (if out \<noteq> [] \<and> last out = 0 then butlast out else out)"

text \<open>The string built in the case \<open>FMOD_TAGDATATYPE_STRING_UTF8\<close> before the strip.\<close>

definition utf8_payload :: "bool \<Rightarrow> byte list \<Rightarrow> byte list" where
  "utf8_payload char_signed data =
     (let offs = (if length data > 3 \<and> char_value char_signed (data ! 0) = 0xEF \<and>
                     char_value char_signed (data ! 1) = 0xBB \<and>
                     char_value char_signed (data ! 2) = 0xBF
                  then 3 else 0 :: nat)
      in drop offs data)"

datatype FMOD_TAGTYPE =
    FMOD_TAGTYPE_UNKNOWN | FMOD_TAGTYPE_ID3V1 | FMOD_TAGTYPE_ID3V2
  | FMOD_TAGTYPE_VORBISCOMMENT | FMOD_TAGTYPE_SHOUTCAST | FMOD_TAGTYPE_ICECAST
  | FMOD_TAGTYPE_ASF | FMOD_TAGTYPE_MIDI | FMOD_TAGTYPE_PLAYLIST | FMOD_TAGTYPE_FMOD
  | FMOD_TAGTYPE_USER

datatype FMOD_TAGDATATYPE =
    FMOD_TAGDATATYPE_BINARY | FMOD_TAGDATATYPE_INT | FMOD_TAGDATATYPE_FLOAT
  | FMOD_TAGDATATYPE_STRING | FMOD_TAGDATATYPE_STRING_UTF16
  | FMOD_TAGDATATYPE_STRING_UTF16BE | FMOD_TAGDATATYPE_STRING_UTF8

record FMOD_TAG =
  tag_type :: FMOD_TAGTYPE
  tag_datatype :: FMOD_TAGDATATYPE
  tag_name :: string
  tag_data :: "byte list"

datatype LLSD_value = LLSD_Integer int | LLSD_Real real | LLSD_String "byte list"

type_synonym metadata = "string \<rightharpoonup> LLSD_value"

text \<open>
  Modelled from the spec: \<open>LLStringUtil::toUpper\<close> and \<open>LLStringUtil::compareInsensitive\<close>
  are not part of the sources at hand. The spec compares tag names "case-insensitively"
  and "uppercases" them; \<open>compareInsensitive\<close> is modelled by the test the source applies to
  its result (it is 0: the strings are equal up to the case of ASCII letters).
\<close>

definition toUpper_char :: "char \<Rightarrow> char" where
  "toUpper_char c =
     (let n = of_char c :: nat in if 97 \<le> n \<and> n \<le> 122 then char_of (n - 32) else c)"

definition toUpper :: "string \<Rightarrow> string" where
  "toUpper s = map toUpper_char s"

definition compareInsensitive_0 :: "string \<Rightarrow> string \<Rightarrow> bool" where
  "compareInsensitive_0 a b \<longleftrightarrow> toUpper a = toUpper b"

text \<open>
  The first switch of the tag loop, for every tag type but \<open>FMOD_TAGTYPE_FMOD\<close> (which
  never reaches the second switch).
\<close>

definition translate_tag_name :: "FMOD_TAGTYPE \<Rightarrow> string \<Rightarrow> string" where
  "translate_tag_name ty name =
     (case ty of
        FMOD_TAGTYPE_ID3V2 \<Rightarrow>
          (if compareInsensitive_0 name ''TIT2'' then ''TITLE''
           else if name = ''TPE1'' then ''ARTIST'' else name)
      | FMOD_TAGTYPE_ASF \<Rightarrow>
          (if compareInsensitive_0 name ''Title'' then ''TITLE''
           else if compareInsensitive_0 name ''WM/AlbumArtist'' then ''ARTIST'' else name)
      | _ \<Rightarrow>
          (if compareInsensitive_0 name ''TITLE'' \<or> compareInsensitive_0 name ''ARTIST''
           then toUpper name else name))"

text \<open>
  The second switch: the value stored under the translated name, if the payload type is one
  of the six the source handles. The four string cases end with the same strip of one
  trailing NUL.
\<close>

definition tag_value :: "platform \<Rightarrow> FMOD_TAG \<Rightarrow> LLSD_value option" where
  "tag_value P tag =
     (case tag_datatype tag of
        FMOD_TAGDATATYPE_INT \<Rightarrow> Some (LLSD_Integer (as_integer P (tag_data tag)))
      | FMOD_TAGDATATYPE_FLOAT \<Rightarrow> Some (LLSD_Real (as_float64 P (tag_data tag)))
      | FMOD_TAGDATATYPE_STRING \<Rightarrow>
          Some (LLSD_String (strip_trailing_nul (rawstr_to_utf8 P (tag_data tag))))
      | FMOD_TAGDATATYPE_STRING_UTF8 \<Rightarrow>
          Some (LLSD_String (strip_trailing_nul (utf8_payload (char_is_signed P) (tag_data tag))))
      | FMOD_TAGDATATYPE_STRING_UTF16 \<Rightarrow>
          Some (LLSD_String (strip_trailing_nul (utf16input_to_utf8 P (tag_data tag) UTF16)))
      | FMOD_TAGDATATYPE_STRING_UTF16BE \<Rightarrow>
          Some (LLSD_String (strip_trailing_nul (utf16input_to_utf8 P (tag_data tag) UTF16BE)))
      | _ \<Rightarrow> None)"

definition store_tag :: "platform \<Rightarrow> FMOD_TAG \<Rightarrow> metadata \<Rightarrow> metadata" where
  "store_tag P tag m =
     (case tag_value P tag of
        None \<Rightarrow> m
      | Some v \<Rightarrow> m(translate_tag_name (tag_type tag) (tag_name tag) \<mapsto> v))"

subsection \<open>The audio engine as seen by the streaming code\<close>

text \<open>
  FMOD is outside the program. What it answers is not decided by the streaming code, so
  the answers come from a script: the answer to an engine call is looked up at the number
  of engine calls made so far, and two calls on the same object may be answered
  differently. Every engine call is appended to a log. A sound or channel is named by
  the position in the log of the call that created it. The only engine state the code
  reads back after setting it is the pause flag of a channel.
\<close>

datatype FMOD_OPENSTATE =
    FMOD_OPENSTATE_READY | FMOD_OPENSTATE_LOADING | FMOD_OPENSTATE_ERROR
  | FMOD_OPENSTATE_CONNECTING | FMOD_OPENSTATE_BUFFERING | FMOD_OPENSTATE_SEEKING
  | FMOD_OPENSTATE_PLAYING | FMOD_OPENSTATE_SETPOSITION

record open_report =
  openstate :: FMOD_OPENSTATE
  percentbuffered :: nat
  starving :: bool
  diskbusy :: bool

datatype fmod_call =
    Call_createStream string
  | Call_getOpenState nat
  | Call_release nat
  | Call_playSound nat
  | Call_setPaused nat bool
  | Call_getPaused nat
  | Call_setPriority nat int
  | Call_setVolume nat real
  | Call_setFrequency nat real
  | Call_getMute nat
  | Call_getCurrentSound nat
  | Call_getNumTags
  | Call_getTag nat
  | Call_DSP_setActive bool
  | Call_lockDSP
  | Call_unlockDSP

record fmod_script =
  createStream_ok :: "nat \<Rightarrow> bool"
  getOpenState_res :: "nat \<Rightarrow> open_report"
  release_ok :: "nat \<Rightarrow> bool"
  playSound_ok :: "nat \<Rightarrow> bool"
  getMute_res :: "nat \<Rightarrow> bool"
  getCurrentSound_ok :: "nat \<Rightarrow> bool"
  getNumTags_res :: "nat \<Rightarrow> (int \<times> int) option"
  getTag_res :: "nat \<Rightarrow> FMOD_TAG option"

record fmod_system =
  script :: fmod_script
  calls :: "fmod_call list"
  paused :: "nat \<Rightarrow> bool"

definition tick :: "fmod_system \<Rightarrow> nat" where
  "tick s = length (calls s)"

definition record_call :: "fmod_call \<Rightarrow> fmod_system \<Rightarrow> fmod_system" where
  "record_call c s = s\<lparr>calls := calls s @ [c]\<rparr>"

definition fmod_createStream :: "string \<Rightarrow> fmod_system \<Rightarrow> nat option \<times> fmod_system" where
  "fmod_createStream url s =
     (if createStream_ok (script s) (tick s) then Some (tick s) else None,
      record_call (Call_createStream url) s)"

definition fmod_getOpenState :: "nat \<Rightarrow> fmod_system \<Rightarrow> open_report \<times> fmod_system" where
  "fmod_getOpenState sound s =
     (getOpenState_res (script s) (tick s), record_call (Call_getOpenState sound) s)"

definition fmod_release :: "nat \<Rightarrow> fmod_system \<Rightarrow> bool \<times> fmod_system" where
  "fmod_release sound s = (release_ok (script s) (tick s), record_call (Call_release sound) s)"

text \<open>\<open>playSound(sound, group, true, &channel)\<close>: a channel that is created starts paused.\<close>

definition fmod_playSound :: "nat \<Rightarrow> fmod_system \<Rightarrow> nat option \<times> fmod_system" where
  "fmod_playSound sound s =
     (if playSound_ok (script s) (tick s)
      then (Some (tick s), record_call (Call_playSound sound) (s\<lparr>paused := (paused s)(tick s := True)\<rparr>))
      else (None, record_call (Call_playSound sound) s))"

definition fmod_setPaused :: "nat \<Rightarrow> bool \<Rightarrow> fmod_system \<Rightarrow> fmod_system" where
  "fmod_setPaused ch b s = record_call (Call_setPaused ch b) (s\<lparr>paused := (paused s)(ch := b)\<rparr>)"

definition fmod_getPaused :: "nat \<Rightarrow> fmod_system \<Rightarrow> bool \<times> fmod_system" where
  "fmod_getPaused ch s = (paused s ch, record_call (Call_getPaused ch) s)"

definition fmod_setPriority :: "nat \<Rightarrow> int \<Rightarrow> fmod_system \<Rightarrow> fmod_system" where
  "fmod_setPriority ch p s = record_call (Call_setPriority ch p) s"

definition fmod_setVolume :: "nat \<Rightarrow> real \<Rightarrow> fmod_system \<Rightarrow> fmod_system" where
  "fmod_setVolume ch v s = record_call (Call_setVolume ch v) s"

definition fmod_setFrequency :: "nat \<Rightarrow> real \<Rightarrow> fmod_system \<Rightarrow> fmod_system" where
  "fmod_setFrequency ch f s = record_call (Call_setFrequency ch f) s"

definition fmod_getMute :: "nat \<Rightarrow> fmod_system \<Rightarrow> bool \<times> fmod_system" where
  "fmod_getMute ch s = (getMute_res (script s) (tick s), record_call (Call_getMute ch) s)"

text \<open>\<open>getCurrentSound(&sound) == FMOD_OK && sound\<close>\<close>

definition fmod_getCurrentSound :: "nat \<Rightarrow> fmod_system \<Rightarrow> bool \<times> fmod_system" where
  "fmod_getCurrentSound ch s =
     (getCurrentSound_ok (script s) (tick s), record_call (Call_getCurrentSound ch) s)"

text \<open>\<open>getNumTags(&tagcount, &dirtytagcount)\<close>: \<open>None\<close> when the result is not \<open>FMOD_OK\<close>.\<close>

definition fmod_getNumTags :: "fmod_system \<Rightarrow> (int \<times> int) option \<times> fmod_system" where
  "fmod_getNumTags s = (getNumTags_res (script s) (tick s), record_call Call_getNumTags s)"

definition fmod_getTag :: "nat \<Rightarrow> fmod_system \<Rightarrow> FMOD_TAG option \<times> fmod_system" where
  "fmod_getTag i s = (getTag_res (script s) (tick s), record_call (Call_getTag i) s)"

definition fmod_DSP_setActive :: "bool \<Rightarrow> fmod_system \<Rightarrow> fmod_system" where
  "fmod_DSP_setActive b s = record_call (Call_DSP_setActive b) s"

definition fmod_lockDSP :: "fmod_system \<Rightarrow> fmod_system" where
  "fmod_lockDSP s = record_call Call_lockDSP s"

definition fmod_unlockDSP :: "fmod_system \<Rightarrow> fmod_system" where
  "fmod_unlockDSP s = record_call Call_unlockDSP s"

subsection \<open>The stream handle \<open>LLAudioStreamManagerFMODSTUDIO\<close>\<close>

text \<open>
  The ways a call can end the program instead of returning.

  Modelled from the spec: the macros \<open>LL_ERRS\<close> and \<open>llassert_always\<close> are not part of the
  sources at hand. The spec has the first "fail fast (fatal, not recoverable)" and has
  \<open>update\<close> "assert" that no current handle is active; both are modelled as ending the call
  with a failure.
\<close>

datatype failure = Fatal_LL_ERRS | Assertion_failed | Null_stream_dereferenced

record stream_manager =
  mStreamChannel :: "nat option"
  mInternetStream :: "nat option"
  mReady :: bool
  mInternetStreamURL :: string

text \<open>
  The constructor: the pointers start as \<open>NULL\<close>, \<open>createStream\<close> is asked for the sound,
  and \<open>mReady\<close> tells whether it answered \<open>FMOD_OK\<close>. A failed call leaves the stream
  pointer \<open>NULL\<close>.
\<close>

definition new_stream_manager :: "string \<Rightarrow> fmod_system \<Rightarrow> stream_manager \<times> fmod_system" where
  "new_stream_manager url s =
     (let (r, s1) = fmod_createStream url s
      in (\<lparr>mStreamChannel = None, mInternetStream = r, mReady = (r \<noteq> None),
           mInternetStreamURL = url\<rparr>, s1))"

text \<open>
  \<open>getOpenState\<close> calls \<open>mInternetStream->getOpenState(...)\<close> with no test of the pointer:
  on a handle without a stream that is a call through \<open>NULL\<close>.
\<close>

definition getOpenState ::
  "stream_manager \<Rightarrow> fmod_system \<Rightarrow> failure + (open_report \<times> fmod_system)" where
  "getOpenState h s =
     (case mInternetStream h of
        None \<Rightarrow> Inl Null_stream_dereferenced
      | Some sound \<Rightarrow> Inr (fmod_getOpenState sound s))"

text \<open>
  \<open>startStream\<close> and \<open>stopStream\<close> test \<open>mInternetStream\<close> before they call \<open>getOpenState()\<close>,
  so there the call is written on the sound itself.
\<close>

definition startStream ::
  "stream_manager \<Rightarrow> fmod_system \<Rightarrow> nat option \<times> stream_manager \<times> fmod_system" where
  "startStream h s =
     (case mInternetStream h of
        None \<Rightarrow> (None, h, s)
      | Some sound \<Rightarrow>
          (let (rep, s1) = fmod_getOpenState sound s in
           if openstate rep \<noteq> FMOD_OPENSTATE_READY then (None, h, s1)
           else if mStreamChannel h \<noteq> None then (mStreamChannel h, h, s1)
           else (let (ch, s2) = fmod_playSound sound s1
                 in (ch, h\<lparr>mStreamChannel := ch\<rparr>, s2))))"

definition stopStream :: "stream_manager \<Rightarrow> fmod_system \<Rightarrow> bool \<times> stream_manager \<times> fmod_system" where
  "stopStream h s =
     (case mInternetStream h of
        None \<Rightarrow> (True, h, s)
      | Some sound \<Rightarrow>
          (let (rep, s1) = fmod_getOpenState sound s;
               close = (openstate rep \<noteq> FMOD_OPENSTATE_CONNECTING)
           in if close
              then (let (ok, s2) = fmod_release sound s1
                    in if ok then (True, h\<lparr>mStreamChannel := None, mInternetStream := None\<rparr>, s2)
                       else (False, h, s2))
              else (False, h, s1)))"

subsection \<open>The controller \<open>LLStreamingAudio_FMODSTUDIO\<close>\<close>

text \<open>
  The members of the controller, with the engine and the ring buffer globals it works on.
  Handles are held by value: \<open>mCurrentInternetStreamp\<close> is \<open>None\<close> for \<open>NULL\<close>.
  \<open>mStreamDSP\<close> tells whether the DSP pointer is set. \<open>live_managers\<close> is bookkeeping
  that the source does not have: the number of handle objects made by \<open>new\<close> and not yet
  given to \<open>delete\<close>.
\<close>

record streaming_audio =
  mSystem :: fmod_system
  mCurrentInternetStreamp :: "stream_manager option"
  mFMODInternetStreamChannelp :: "nat option"
  mDeadStreams :: "stream_manager list"
  mURL :: string
  mPendingURL :: string
  mGain :: real
  mMetaData :: "metadata option"
  mStreamDSP :: bool
  wave :: "real wave_globals"
  live_managers :: nat

text \<open>
  The state after the constructor, on an engine \<open>sys\<close>; \<open>dsp\<close> tells whether \<open>createDSP\<close>
  gave a DSP. The constructor ends with \<open>mStreamDSP->setActive(false)\<close>, which it calls
  whether or not the pointer is set.
\<close>

definition new_streaming_audio :: "fmod_system \<Rightarrow> bool \<Rightarrow> streaming_audio" where
  "new_streaming_audio sys dsp =
     \<lparr>mSystem = fmod_DSP_setActive False sys,
      mCurrentInternetStreamp = None, mFMODInternetStreamChannelp = None,
      mDeadStreams = [], mURL = [], mPendingURL = [], mGain = 1, mMetaData = None,
      mStreamDSP = dsp, wave = wave_init, live_managers = 0\<rparr>"

text \<open>
  Modelled from the spec: \<open>llclamp\<close> and \<open>llmin\<close> are not part of the sources at hand; the
  spec has the gain "clamped to [0,1]".
\<close>

definition llclamp :: "real \<Rightarrow> real \<Rightarrow> real \<Rightarrow> real" where
  "llclamp a minval maxval = (if a < minval then minval else if a > maxval then maxval else a)"

definition llmin :: "nat \<Rightarrow> nat \<Rightarrow> nat" where
  "llmin a b = (if a < b then a else b)"

definition getGain :: "streaming_audio \<Rightarrow> real" where
  "getGain a = mGain a"

definition getURL :: "streaming_audio \<Rightarrow> string" where
  "getURL a = mURL a"

definition setGain :: "real \<Rightarrow> streaming_audio \<Rightarrow> streaming_audio" where
  "setGain vol a =
     (let a1 = a\<lparr>mGain := vol\<rparr> in
      case mFMODInternetStreamChannelp a1 of
        None \<Rightarrow> a1
      | Some ch \<Rightarrow> a1\<lparr>mSystem := fmod_setVolume ch (llclamp (vol * vol) 0 1) (mSystem a1)\<rparr>)"

definition stop :: "streaming_audio \<Rightarrow> streaming_audio" where
  "stop a =
     (let a1 = a\<lparr>mPendingURL := [], mMetaData := None\<rparr>;
          a2 = (if mStreamDSP a1
                then a1\<lparr>mSystem := fmod_unlockDSP (fmod_DSP_setActive False (fmod_lockDSP (mSystem a1))),
                        wave := (wave a1)\<lparr>gWaveDataBufferSize := 0\<rparr>\<rparr>
                else a1);
          a3 = (case mFMODInternetStreamChannelp a2 of
                  None \<Rightarrow> a2
                | Some ch \<Rightarrow>
                    a2\<lparr>mSystem := fmod_setPriority ch 0 (fmod_setPaused ch True (mSystem a2)),
                       mFMODInternetStreamChannelp := None\<rparr>)
      in case mCurrentInternetStreamp a3 of
           None \<Rightarrow> a3
         | Some h \<Rightarrow>
             (let (ok, h1, s1) = stopStream h (mSystem a3) in
              if ok
              then a3\<lparr>mSystem := s1, mCurrentInternetStreamp := None,
                      live_managers := live_managers a3 - 1\<rparr>
              else a3\<lparr>mSystem := s1, mCurrentInternetStreamp := None,
                      mDeadStreams := mDeadStreams a3 @ [h1]\<rparr>))"

text \<open>
  The three lines that \<open>start\<close> and \<open>update\<close> share: a new handle becomes current, its URL
  is remembered and the metadata start empty.
\<close>

definition open_stream :: "string \<Rightarrow> streaming_audio \<Rightarrow> streaming_audio" where
  "open_stream url a =
     (let (h, s1) = new_stream_manager url (mSystem a)
      in a\<lparr>mSystem := s1, mCurrentInternetStreamp := Some h, mURL := url,
           mMetaData := Some Map.empty, live_managers := Suc (live_managers a)\<rparr>)"

definition start :: "string \<Rightarrow> streaming_audio \<Rightarrow> streaming_audio" where
  "start url a0 =
     (let a = stop a0 in
      if url \<noteq> []
      then (if mDeadStreams a = [] then open_stream url a else a\<lparr>mPendingURL := url\<rparr>)
      else a\<lparr>mURL := []\<rparr>)"

text \<open>
  The loop of \<open>releaseDeadStreams\<close>: every dead handle is asked to stop; the ones that did
  are deleted and leave the list. The result is the list that remains and the engine.
\<close>

fun release_loop :: "stream_manager list \<Rightarrow> fmod_system \<Rightarrow> stream_manager list \<times> fmod_system" where
  "release_loop [] s = ([], s)"
| "release_loop (streamp # rest) s =
     (let (ok, h1, s1) = stopStream streamp s in
      if ok then release_loop rest s1
      else (let (kept, s2) = release_loop rest s1 in (h1 # kept, s2)))"

definition releaseDeadStreams :: "streaming_audio \<Rightarrow> bool \<times> streaming_audio" where
  "releaseDeadStreams a =
     (let (kept, s1) = release_loop (mDeadStreams a) (mSystem a)
      in (kept = [],
          a\<lparr>mSystem := s1, mDeadStreams := kept,
            live_managers := live_managers a - (length (mDeadStreams a) - length kept)\<rparr>))"

text \<open>The starvation policy, source lines 402 to 417.\<close>

definition starvation_policy :: "bool \<Rightarrow> nat \<Rightarrow> nat \<Rightarrow> fmod_system \<Rightarrow> fmod_system" where
  "starvation_policy starving_now progress ch s =
     (if starving_now
      then (let (is_paused, s1) = fmod_getPaused ch s
            in if \<not> is_paused then fmod_setPaused ch True s1 else s1)
      else if progress > 80 then fmod_setPaused ch False s
      else s)"

text \<open>
  One tag of the loop at source lines 320 to 400. A tag of type \<open>FMOD_TAGTYPE_FMOD\<close> only
  changes the frequency of the channel, when its name is "Sample Rate Change"; every other
  tag goes through the two switches. The metadata pointer is set when the loop runs.
\<close>

definition process_tag :: "platform \<Rightarrow> nat \<Rightarrow> FMOD_TAG \<Rightarrow> streaming_audio \<Rightarrow> streaming_audio" where
  "process_tag P ch tag a =
     (if tag_type tag = FMOD_TAGTYPE_FMOD
      then (if compareInsensitive_0 (tag_name tag) ''Sample Rate Change''
            then a\<lparr>mSystem := fmod_setFrequency ch (as_float32 P (tag_data tag)) (mSystem a)\<rparr>
            else a)
      else a\<lparr>mMetaData := map_option (store_tag P tag) (mMetaData a)\<rparr>)"

fun tag_loop :: "platform \<Rightarrow> nat \<Rightarrow> nat list \<Rightarrow> streaming_audio \<Rightarrow> streaming_audio" where
  "tag_loop P ch [] a = a"
| "tag_loop P ch (i # rest) a =
     (let (r, s1) = fmod_getTag i (mSystem a);
          a1 = a\<lparr>mSystem := s1\<rparr>
      in tag_loop P ch rest (case r of None \<Rightarrow> a1 | Some tag \<Rightarrow> process_tag P ch tag a1))"

text \<open>The block \<open>if (mFMODInternetStreamChannelp) ...\<close> at the end of \<open>update\<close>.\<close>

definition update_channel :: "platform \<Rightarrow> open_report \<Rightarrow> streaming_audio \<Rightarrow> streaming_audio" where
  "update_channel P rep a =
     (case mFMODInternetStreamChannelp a of
        None \<Rightarrow> a
      | Some ch \<Rightarrow>
          (let a1 = (if mMetaData a = None then a\<lparr>mMetaData := Some Map.empty\<rparr> else a);
               (ok, s1) = fmod_getCurrentSound ch (mSystem a1);
               a2 = a1\<lparr>mSystem := s1\<rparr>
           in if ok
              then (let (nt, s2) = fmod_getNumTags (mSystem a2);
                        a3 = a2\<lparr>mSystem := s2\<rparr>;
                        a4 = (case nt of
                                None \<Rightarrow> a3
                              | Some (tagcount, dirtytagcount) \<Rightarrow>
                                  if dirtytagcount \<noteq> 0
                                  then tag_loop P ch [0..<nat tagcount]
                                         (a3\<lparr>mMetaData := Some Map.empty\<rparr>)
                                  else a3)
                    in a4\<lparr>mSystem := starvation_policy (starving rep) (percentbuffered rep) ch
                                        (mSystem a4)\<rparr>)
              else a2))"

text \<open>
  The branch for \<open>FMOD_OPENSTATE_READY\<close>: with no channel yet, the handle is asked to start
  the stream; if that gives a channel, the gain is set again, the DSP is activated and the
  channel is unpaused.
\<close>

definition update_ready :: "stream_manager \<Rightarrow> streaming_audio \<Rightarrow> streaming_audio" where
  "update_ready h a =
     (case mFMODInternetStreamChannelp a of
        Some ch \<Rightarrow> a
      | None \<Rightarrow>
          (let (r, h1, s1) = startStream h (mSystem a);
               a1 = a\<lparr>mSystem := s1, mCurrentInternetStreamp := Some h1,
                      mFMODInternetStreamChannelp := r\<rparr>
           in case r of
                None \<Rightarrow> a1
              | Some ch \<Rightarrow>
                  (let a2 = setGain (getGain a1) a1;
                       a3 = (if mStreamDSP a2
                             then a2\<lparr>mSystem := fmod_DSP_setActive True (mSystem a2)\<rparr>
                             else a2)
                   in a3\<lparr>mSystem := fmod_setPaused ch False (mSystem a3)\<rparr>)))"

definition update :: "platform \<Rightarrow> streaming_audio \<Rightarrow> failure + streaming_audio" where
  "update P a0 =
     (let (drained, a) = releaseDeadStreams a0 in
      if \<not> drained
      then (if mCurrentInternetStreamp a = None then Inr a else Inl Assertion_failed)
      else if mPendingURL a \<noteq> [] \<and> mCurrentInternetStreamp a \<noteq> None then Inl Assertion_failed
      else
        (let a1 = (if mPendingURL a \<noteq> []
                   then (open_stream (mPendingURL a) a)\<lparr>mPendingURL := []\<rparr>
                   else a)
         in case mCurrentInternetStreamp a1 of
              None \<Rightarrow> Inr a1
            | Some h \<Rightarrow>
                (case getOpenState h (mSystem a1) of
                   Inl e \<Rightarrow> Inl e
                 | Inr (rep, s2) \<Rightarrow>
                     (let a2 = a1\<lparr>mSystem := s2\<rparr> in
                      if openstate rep = FMOD_OPENSTATE_READY
                      then Inr (update_channel P rep (update_ready h a2))
                      else if openstate rep = FMOD_OPENSTATE_ERROR
                      then Inr (stop a2)
                      else Inr (update_channel P rep a2)))))"

definition pause :: "int \<Rightarrow> streaming_audio \<Rightarrow> streaming_audio" where
  "pause pauseopt0 a =
     (let pauseopt = (if pauseopt0 < 0
                      then (if mCurrentInternetStreamp a \<noteq> None then 1 else 0)
                      else pauseopt0)
      in if pauseopt \<noteq> 0
         then (if mCurrentInternetStreamp a \<noteq> None then stop a else a)
         else start (getURL a) a)"

definition isPlaying :: "streaming_audio \<Rightarrow> int" where
  "isPlaying a =
     (if mCurrentInternetStreamp a \<noteq> None then 1
      else if mURL a \<noteq> [] \<or> mPendingURL a \<noteq> [] then 2
      else 0)"

text \<open>
  \<open>getWaveData\<close>. \<open>count\<close> is an \<open>S32\<close>; the comparison with \<open>WAVE_BUFFER_SIZE / 2\<close>, the
  assignment to \<open>gWaveBufferMinSize\<close> and \<open>U32(count)\<close> all see it converted to \<open>U32\<close>.
  \<open>LL_ERRS\<close> ends the program. \<open>arr\<close> is the array of the caller, which has room for
  \<open>count\<close> entries; \<open>write_floats\<close> is a \<open>memcpy\<close> or \<open>memset\<close> into it. \<open>stride\<close> is not
  used by the source.
\<close>

definition U32_of_S32 :: "int \<Rightarrow> nat" where
  "U32_of_S32 i = nat (i mod 2 ^ 32)"

definition write_floats :: "nat \<Rightarrow> 'a list \<Rightarrow> 'a list \<Rightarrow> 'a list" where
  "write_floats off xs arr = take off arr @ xs @ drop (off + length xs) arr"

definition getWaveData ::
  "real list \<Rightarrow> int \<Rightarrow> int \<Rightarrow> streaming_audio \<Rightarrow> failure + (bool \<times> real list \<times> streaming_audio)" where
  "getWaveData arr count stride a =
     (if U32_of_S32 count > WAVE_BUFFER_SIZE div 2 then Inl Fatal_LL_ERRS
      else
        (case (mFMODInternetStreamChannelp a, mCurrentInternetStreamp a) of
           (Some ch, Some h) \<Rightarrow>
             (let (muted, s1) = fmod_getMute ch (mSystem a);
                  a1 = a\<lparr>mSystem := s1\<rparr>
              in if muted then Inr (False, arr, a1)
                 else
                   (let a2 = a1\<lparr>wave := (wave a1)\<lparr>gWaveBufferMinSize := U32_of_S32 count\<rparr>\<rparr>;
                        buff_size = gWaveDataBufferSize (wave a2)
                    in if buff_size = 0 then Inr (False, arr, a2)
                       else
                         (let arr1 = write_floats 0
                                       (take (llmin (U32_of_S32 count) buff_size)
                                          (drop (WAVE_BUFFER_SIZE - buff_size)
                                             (gWaveDataBuffer (wave a2))))
                                       arr;
                              arr2 = (if buff_size < U32_of_S32 count
                                      then write_floats buff_size
                                             (replicate (U32_of_S32 count - buff_size) 0) arr1
                                      else arr1)
                          in Inr (True, arr2, a2))))
         | _ \<Rightarrow> Inr (False, arr, a)))"

subsection \<open>Sequences of calls\<close>

text \<open>
  The calls of the interface, and the callback of the mixing thread between them (the
  mutex makes each run of its loop one step). A sequence of calls stops at the first
  failure.
\<close>

datatype api_call =
    Start string | Stop | Update | Pause int | SetGain real
  | GetWaveData "real list" int int | WaveCallback "real list" nat nat

fun exec :: "platform \<Rightarrow> api_call \<Rightarrow> streaming_audio \<Rightarrow> failure + streaming_audio" where
  "exec P (Start url) a = Inr (start url a)"
| "exec P Stop a = Inr (stop a)"
| "exec P Update a = update P a"
| "exec P (Pause opt) a = Inr (pause opt a)"
| "exec P (SetGain vol) a = Inr (setGain vol a)"
| "exec P (GetWaveData arr count stride) a =
     (case getWaveData arr count stride a of
        Inl e \<Rightarrow> Inl e
      | Inr (r, arr1, a1) \<Rightarrow> Inr a1)"
| "exec P (WaveCallback inbuffer len inchannels) a =
     Inr (a\<lparr>wave := waveDataCallback inbuffer len inchannels (wave a)\<rparr>)"

fun run :: "platform \<Rightarrow> api_call list \<Rightarrow> streaming_audio \<Rightarrow> failure + streaming_audio" where
  "run P [] a = Inr a"
| "run P (c # cs) a = (case exec P c a of Inl e \<Rightarrow> Inl e | Inr a1 \<Rightarrow> run P cs a1)"

subsection \<open>Concrete inputs for the examples\<close>

text \<open>
  A platform where plain \<open>char\<close> is unsigned and one where it is signed. The converters
  are stand-ins (the identity, and the low byte of every unit); no example depends on them
  beyond ASCII.
\<close>

definition unsigned_platform :: platform where
  "unsigned_platform =
     \<lparr>char_is_signed = False, rawstr_to_utf8 = (\<lambda>raw. raw), utf16str_to_utf8str = map ucast,
      as_integer = (\<lambda>d. 0), as_float64 = (\<lambda>d. 0), as_float32 = (\<lambda>d. 0)\<rparr>"

definition signed_platform :: platform where
  "signed_platform = unsigned_platform\<lparr>char_is_signed := True\<rparr>"

definition text_tag :: "FMOD_TAGDATATYPE \<Rightarrow> byte list \<Rightarrow> FMOD_TAG" where
  "text_tag dt d =
     \<lparr>tag_type = FMOD_TAGTYPE_ID3V2, tag_datatype = dt, tag_name = ''TPE1'', tag_data = d\<rparr>"

text \<open>
  An engine whose answers do not change: every open state poll reports \<open>st\<close> with 50 percent
  buffered, \<open>createStream\<close> and \<open>release\<close> succeed or fail as \<open>ok\<close> says, and there are no tags.
\<close>

definition steady_script :: "FMOD_OPENSTATE \<Rightarrow> bool \<Rightarrow> fmod_script" where
  "steady_script st ok =
     \<lparr>createStream_ok = (\<lambda>k. ok),
      getOpenState_res = (\<lambda>k. \<lparr>openstate = st, percentbuffered = 50, starving = False,
                                diskbusy = False\<rparr>),
      release_ok = (\<lambda>k. ok), playSound_ok = (\<lambda>k. True), getMute_res = (\<lambda>k. False),
      getCurrentSound_ok = (\<lambda>k. True), getNumTags_res = (\<lambda>k. Some (0, 0)),
      getTag_res = (\<lambda>k. None)\<rparr>"

definition engine :: "fmod_script \<Rightarrow> fmod_system" where
  "engine sc = \<lparr>script = sc, calls = [], paused = (\<lambda>ch. False)\<rparr>"

text \<open>
  An engine on which a stream is CONNECTING for the first \<open>n\<close> engine calls and READY after
  that, and one on which \<open>createStream\<close> fails.
\<close>

definition connecting_until :: "nat \<Rightarrow> fmod_script" where
  "connecting_until n =
     (steady_script FMOD_OPENSTATE_READY True)
       \<lparr>getOpenState_res :=
          (\<lambda>k. \<lparr>openstate = (if k < n then FMOD_OPENSTATE_CONNECTING else FMOD_OPENSTATE_READY),
                 percentbuffered = 50, starving = False, diskbusy = False\<rparr>)\<rparr>"

definition failing_script :: fmod_script where
  "failing_script = steady_script FMOD_OPENSTATE_READY False"

definition open_handle :: "nat \<Rightarrow> stream_manager" where
  "open_handle sound =
     \<lparr>mStreamChannel = None, mInternetStream = Some sound, mReady = True,
      mInternetStreamURL = ''http://radio''\<rparr>"

text \<open>
  A session on an engine where the first stream is still CONNECTING when it is replaced:
  \<open>start "a"\<close>, then \<open>start "b"\<close>. And a fresh controller on an engine whose
  \<open>createStream\<close> fails.
\<close>

definition fresh_audio :: streaming_audio where
  "fresh_audio = new_streaming_audio (engine (connecting_until 10)) True"

definition replaced_audio :: streaming_audio where
  "replaced_audio = start ''b'' (start ''a'' fresh_audio)"

definition failing_audio :: streaming_audio where
  "failing_audio = new_streaming_audio (engine failing_script) True"

text \<open>
  An engine whose stream is READY but starving, with 10 percent buffered, and the state
  of a controller on it after \<open>start "a"\<close> and one \<open>update\<close>: the stream plays on a
  channel that the first tick has already paused.
\<close>

definition starving_script :: fmod_script where
  "starving_script =
     (steady_script FMOD_OPENSTATE_READY True)
       \<lparr>getOpenState_res :=
          (\<lambda>k. \<lparr>openstate = FMOD_OPENSTATE_READY, percentbuffered = 10, starving = True,
                 diskbusy = False\<rparr>)\<rparr>"

definition starving_audio :: streaming_audio where
  "starving_audio =
     projr (update unsigned_platform
       (start ''a'' (new_streaming_audio (engine starving_script) True)))"

text \<open>
  The playing session with three samples in the ring buffer, and the same on an engine
  that reports the channel as muted.
\<close>

text \<open>
  An engine that is READY and reports one dirty tag, a UTF-8 string "A" with a leading
  marker \<open>EF BB BF\<close> and a trailing NUL, under the ID3v2 name TPE1. And what a state has
  stored under the name ARTIST.
\<close>

definition tagged_script :: fmod_script where
  "tagged_script =
     (steady_script FMOD_OPENSTATE_READY True)
       \<lparr>getNumTags_res := (\<lambda>k. Some (1, 1)),
        getTag_res := (\<lambda>k. Some (text_tag FMOD_TAGDATATYPE_STRING_UTF8
                                     [0xEF, 0xBB, 0xBF, 0x41, 0x00]))\<rparr>"

definition stored_artist :: "streaming_audio \<Rightarrow> LLSD_value option" where
  "stored_artist a = (case mMetaData a of None \<Rightarrow> None | Some m \<Rightarrow> m ''ARTIST'')"



subsection \<open>Notions used by the proofs\<close>

text \<open>
  \<open>same_control a b\<close>: the states agree on everything but the engine and the metadata.
\<close>

definition same_control :: "streaming_audio \<Rightarrow> streaming_audio \<Rightarrow> bool" where
  "same_control a b \<longleftrightarrow> b = a\<lparr>mSystem := mSystem b, mMetaData := mMetaData b\<rparr>"

text \<open>The URLs for which \<open>createStream\<close> has been called, in the order of the calls.\<close>

fun created_of :: "fmod_call \<Rightarrow> string list" where
  "created_of (Call_createStream url) = [url]"
| "created_of c = []"

definition streams_created :: "fmod_system \<Rightarrow> string list" where
  "streams_created s = concat (map created_of (calls s))"

text \<open>The \<open>setPaused\<close> calls that the engine has received, in the order of the calls.\<close>

fun setPaused_of :: "fmod_call \<Rightarrow> (nat \<times> bool) list" where
  "setPaused_of (Call_setPaused ch b) = [(ch, b)]"
| "setPaused_of c = []"

definition setPaused_calls :: "fmod_system \<Rightarrow> (nat \<times> bool) list" where
  "setPaused_calls s = concat (map setPaused_of (calls s))"

text \<open>
  The invariant of the controller between two calls of its interface: while a dead stream
  is left there is no current handle; a pending URL waits only while a dead stream is left;
  a channel is held only with a current handle; every handle object that is allocated is
  the current one or is on the dead list; and the ring buffer globals are in range.
\<close>

definition controller_inv :: "streaming_audio \<Rightarrow> bool" where
  "controller_inv a \<longleftrightarrow>
     (mDeadStreams a = [] \<or> mCurrentInternetStreamp a = None) \<and>
     (mPendingURL a = [] \<or> mDeadStreams a \<noteq> []) \<and>
     (mFMODInternetStreamChannelp a = None \<or> mCurrentInternetStreamp a \<noteq> None) \<and>
     live_managers a =
       (if mCurrentInternetStreamp a = None then 0 else 1) + length (mDeadStreams a) \<and>
     wave_inv (wave a)"

text \<open>
  The starvation policy run on consecutive ticks that all report starving, with the
  buffered percentages \<open>ps\<close> of the ticks.
\<close>

definition starving_ticks :: "nat list \<Rightarrow> nat \<Rightarrow> fmod_system \<Rightarrow> fmod_system" where
  "starving_ticks ps ch s = fold (\<lambda>p. starvation_policy True p ch) ps s"

subsection \<open>Ring buffer: one store\<close>

lemma wave_store_min [simp]: "gWaveBufferMinSize (wave_store x g) = gWaveBufferMinSize g"
  by (simp add: wave_store_def Let_def)

lemma wave_store_length:
  "length (gWaveDataBuffer g) = WAVE_BUFFER_SIZE \<Longrightarrow>
   gWaveBufferMinSize g \<le> WAVE_BUFFER_SIZE \<Longrightarrow>
   length (gWaveDataBuffer (wave_store x g)) = WAVE_BUFFER_SIZE"
  by (simp add: wave_store_def Let_def memcpy_within_def)

lemma wave_store_size:
  "gWaveDataBufferSize (wave_store x g) =
     (if gWaveDataBufferSize g < WAVE_BUFFER_SIZE then Suc (gWaveDataBufferSize g)
      else Suc (gWaveBufferMinSize g))"
  by (simp add: wave_store_def Let_def)

lemma wave_store_inv:
  assumes "wave_inv g"
  shows "wave_inv (wave_store x g)"
proof -
  have len: "length (gWaveDataBuffer g) = WAVE_BUFFER_SIZE"
    and w: "gWaveBufferMinSize g \<le> WAVE_BUFFER_SIZE div 2"
    using assms by (simp_all add: wave_inv_def)
  have w': "Suc (gWaveBufferMinSize g) \<le> WAVE_BUFFER_SIZE"
    using w by (simp add: WAVE_BUFFER_SIZE_def)
  have "length (gWaveDataBuffer (wave_store x g)) = WAVE_BUFFER_SIZE"
    using len w' by (simp add: wave_store_length)
  moreover have "gWaveDataBufferSize (wave_store x g) \<le> WAVE_BUFFER_SIZE"
    using w' by (simp add: wave_store_size)
  ultimately show ?thesis using w by (simp add: wave_inv_def)
qed

lemma wave_store_window_room:
  assumes "wave_inv g" and "gWaveDataBufferSize g < WAVE_BUFFER_SIZE"
  shows "wave_window (wave_store x g) = x # wave_window g"
proof -
  let ?b = "gWaveDataBuffer g" and ?n = "gWaveDataBufferSize g"
  have len: "length ?b = WAVE_BUFFER_SIZE" using assms(1) by (simp add: wave_inv_def)
  have idx: "WAVE_BUFFER_SIZE - Suc ?n < length ?b" using assms(2) len by simp
  have "wave_window (wave_store x g) = drop (WAVE_BUFFER_SIZE - Suc ?n) (?b[WAVE_BUFFER_SIZE - Suc ?n := x])"
    using assms(2) by (simp add: wave_window_def wave_store_def Let_def)
  also have "\<dots> = x # drop (Suc (WAVE_BUFFER_SIZE - Suc ?n)) ?b"
    using idx by (simp add: Cons_nth_drop_Suc [symmetric] drop_update_cancel)
  also have "Suc (WAVE_BUFFER_SIZE - Suc ?n) = WAVE_BUFFER_SIZE - ?n"
    using assms(2) by simp
  finally show ?thesis by (simp add: wave_window_def)
qed

lemma wave_store_window_full:
  assumes "wave_inv g" and "gWaveDataBufferSize g = WAVE_BUFFER_SIZE"
  shows "wave_window (wave_store x g) = x # take (gWaveBufferMinSize g) (wave_window g)"
proof -
  let ?b = "gWaveDataBuffer g" and ?w = "gWaveBufferMinSize g"
  have len: "length ?b = WAVE_BUFFER_SIZE" using assms(1) by (simp add: wave_inv_def)
  have w: "?w \<le> WAVE_BUFFER_SIZE div 2" using assms(1) by (simp add: wave_inv_def)
  have pos: "0 < WAVE_BUFFER_SIZE" by (simp add: WAVE_BUFFER_SIZE_def)
  have w': "Suc ?w \<le> WAVE_BUFFER_SIZE" using w pos by (simp add: WAVE_BUFFER_SIZE_def)
  define c where "c = memcpy_within (WAVE_BUFFER_SIZE - ?w) 0 ?w ?b"
  have c_eq: "c = take (WAVE_BUFFER_SIZE - ?w) ?b @ take ?w ?b"
    using len w' by (simp add: c_def memcpy_within_def)
  have c_len: "length c = WAVE_BUFFER_SIZE" using len w' by (simp add: c_eq)
  define b' where "b' = (if ?w \<noteq> 0 then c else ?b)"
  have b'_len: "length b' = WAVE_BUFFER_SIZE" by (simp add: b'_def c_len len)
  have b'_tail: "drop (WAVE_BUFFER_SIZE - ?w) b' = take ?w ?b"
    using len w' by (simp add: b'_def c_eq)
  have "wave_window (wave_store x g) =
          drop (WAVE_BUFFER_SIZE - Suc ?w) (b'[WAVE_BUFFER_SIZE - Suc ?w := x])"
    using assms(2) by (simp add: wave_window_def wave_store_def Let_def b'_def c_def)
  also have "\<dots> = x # drop (Suc (WAVE_BUFFER_SIZE - Suc ?w)) b'"
    using b'_len pos by (simp add: Cons_nth_drop_Suc [symmetric] drop_update_cancel)
  also have "Suc (WAVE_BUFFER_SIZE - Suc ?w) = WAVE_BUFFER_SIZE - ?w"
    using w' by simp
  finally have "wave_window (wave_store x g) = x # take ?w ?b"
    by (simp add: b'_tail)
  moreover have "wave_window g = ?b" using assms(2) by (simp add: wave_window_def)
  ultimately show ?thesis by simp
qed

lemma fold_wave_store_min [simp]:
  "gWaveBufferMinSize (fold wave_store xs g) = gWaveBufferMinSize g"
  by (induction xs arbitrary: g) simp_all

lemma fold_wave_store_inv: "wave_inv g \<Longrightarrow> wave_inv (fold wave_store xs g)"
  by (induction xs arbitrary: g) (simp_all add: wave_store_inv)

lemma fold_wave_store_room:
  "wave_inv g \<Longrightarrow> gWaveDataBufferSize g + length xs \<le> WAVE_BUFFER_SIZE \<Longrightarrow>
   wave_window (fold wave_store xs g) = rev xs @ wave_window g \<and>
   gWaveDataBufferSize (fold wave_store xs g) = gWaveDataBufferSize g + length xs"
proof (induction xs arbitrary: g)
  case Nil
  then show ?case by simp
next
  case (Cons x xs)
  have lt: "gWaveDataBufferSize g < WAVE_BUFFER_SIZE" using Cons.prems(2) by simp
  have sz: "gWaveDataBufferSize (wave_store x g) = Suc (gWaveDataBufferSize g)"
    using lt by (simp add: wave_store_size)
  have "wave_inv (wave_store x g)" using Cons.prems(1) by (rule wave_store_inv)
  moreover have "gWaveDataBufferSize (wave_store x g) + length xs \<le> WAVE_BUFFER_SIZE"
    using Cons.prems(2) sz by simp
  ultimately have
    "wave_window (fold wave_store xs (wave_store x g)) = rev xs @ wave_window (wave_store x g) \<and>
     gWaveDataBufferSize (fold wave_store xs (wave_store x g)) =
       gWaveDataBufferSize (wave_store x g) + length xs"
    by (rule Cons.IH)
  then show ?case
    using wave_store_window_room [OF Cons.prems(1) lt] sz by simp
qed

lemma wave_init_inv: "wave_inv wave_init"
  by (simp add: wave_inv_def wave_init_def)

text \<open>
  A block written with room to spare is found at the front of the window in the order of
  the block: the newest block comes first, and within it the samples are in time order.
\<close>

lemma wave_write_window:
  "wave_inv g \<Longrightarrow> gWaveDataBufferSize g + length xs \<le> WAVE_BUFFER_SIZE \<Longrightarrow>
   wave_window (wave_write xs g) = xs @ wave_window g"
  using fold_wave_store_room [of g "rev xs"] by (simp add: wave_write_def)

lemma mix_down_mono: "mix_down xs (length xs) 1 = xs"
  by (simp add: mix_down_def map_nth)

text \<open>
  Claim C2, as the code has it. On a state satisfying \<open>wave_inv\<close> (the watermark is at most
  half the capacity, which \<open>getWaveData\<close> enforces), one store keeps the invariant and the
  watermark. While the fill count is below the capacity the sample is put in front of the
  readable window. On a full buffer the eviction keeps only the \<open>w\<close> most recently stored
  samples, \<open>w\<close> being the watermark: they are moved, in their order, to the last \<open>w\<close> slots
  of the array, the new sample is put in front of them, and the fill count restarts at
  \<open>w + 1\<close>. Everything older than the watermark is dropped, so the buffer does not go on
  holding the most recent 1024 samples.
\<close>

theorem ring_buffer_store:
  assumes "wave_inv g"
  shows "wave_inv (wave_store x g) \<and>
         gWaveBufferMinSize (wave_store x g) = gWaveBufferMinSize g \<and>
         (gWaveDataBufferSize g < WAVE_BUFFER_SIZE \<longrightarrow>
            wave_window (wave_store x g) = x # wave_window g \<and>
            gWaveDataBufferSize (wave_store x g) = Suc (gWaveDataBufferSize g)) \<and>
         (gWaveDataBufferSize g = WAVE_BUFFER_SIZE \<longrightarrow>
            wave_window (wave_store x g) = x # take (gWaveBufferMinSize g) (wave_window g) \<and>
            length (take (gWaveBufferMinSize g) (wave_window g)) = gWaveBufferMinSize g \<and>
            gWaveDataBufferSize (wave_store x g) = Suc (gWaveBufferMinSize g) \<and>
            drop (WAVE_BUFFER_SIZE - gWaveBufferMinSize g) (gWaveDataBuffer (wave_store x g)) =
              take (gWaveBufferMinSize g) (wave_window g))"
proof -
  have w: "gWaveBufferMinSize g \<le> WAVE_BUFFER_SIZE div 2"
    and len: "length (gWaveDataBuffer g) = WAVE_BUFFER_SIZE"
    using assms by (simp_all add: wave_inv_def)
  have w': "Suc (gWaveBufferMinSize g) \<le> WAVE_BUFFER_SIZE"
    using w by (simp add: WAVE_BUFFER_SIZE_def)
  have full: "wave_window (wave_store x g) = x # take (gWaveBufferMinSize g) (wave_window g) \<and>
            length (take (gWaveBufferMinSize g) (wave_window g)) = gWaveBufferMinSize g \<and>
            gWaveDataBufferSize (wave_store x g) = Suc (gWaveBufferMinSize g) \<and>
            drop (WAVE_BUFFER_SIZE - gWaveBufferMinSize g) (gWaveDataBuffer (wave_store x g)) =
              take (gWaveBufferMinSize g) (wave_window g)"
    if f: "gWaveDataBufferSize g = WAVE_BUFFER_SIZE"
  proof -
    have win: "wave_window (wave_store x g) = x # take (gWaveBufferMinSize g) (wave_window g)"
      using assms f by (rule wave_store_window_full)
    have sz: "gWaveDataBufferSize (wave_store x g) = Suc (gWaveBufferMinSize g)"
      using f by (simp add: wave_store_size)
    have "wave_window g = gWaveDataBuffer g" using f by (simp add: wave_window_def)
    then have l: "length (take (gWaveBufferMinSize g) (wave_window g)) = gWaveBufferMinSize g"
      using len w' by simp
    have e: "WAVE_BUFFER_SIZE - gWaveBufferMinSize g =
             1 + (WAVE_BUFFER_SIZE - Suc (gWaveBufferMinSize g))"
      using w' by simp
    have "drop (WAVE_BUFFER_SIZE - gWaveBufferMinSize g) (gWaveDataBuffer (wave_store x g)) =
          drop 1 (drop (WAVE_BUFFER_SIZE - Suc (gWaveBufferMinSize g)) (gWaveDataBuffer (wave_store x g)))"
      unfolding e drop_drop ..
    also have "\<dots> = drop 1 (wave_window (wave_store x g))"
      by (simp add: wave_window_def sz)
    also have "\<dots> = take (gWaveBufferMinSize g) (wave_window g)"
      by (simp add: win)
    finally show ?thesis using win sz l by simp
  qed
  show ?thesis
    using wave_store_inv [OF assms] wave_store_window_room [OF assms] full
    by (simp add: wave_store_size)
qed

text \<open>A full buffer with watermark 2: after one more store three samples are readable.\<close>

theorem ring_buffer_store_witness:
  "wave_inv \<lparr>gWaveBufferMinSize = 2, gWaveDataBuffer = replicate 1024 (0::int),
             gWaveDataBufferSize = 1024\<rparr> \<and>
   wave_window (wave_store 7 \<lparr>gWaveBufferMinSize = 2, gWaveDataBuffer = replicate 1024 (0::int),
             gWaveDataBufferSize = 1024\<rparr>) = [7, 0, 0] \<and>
   gWaveDataBufferSize (wave_store 7 \<lparr>gWaveBufferMinSize = 2,
             gWaveDataBuffer = replicate 1024 (0::int), gWaveDataBufferSize = 1024\<rparr>) = 3"
proof -
  let ?g = "\<lparr>gWaveBufferMinSize = 2, gWaveDataBuffer = replicate 1024 (0::int),
             gWaveDataBufferSize = 1024\<rparr>"
  have i: "wave_inv ?g" by (simp add: wave_inv_def WAVE_BUFFER_SIZE_def)
  have t: "take 2 (replicate 1024 (0::int)) = [0, 0]"
    by (simp add: numeral_2_eq_2 numeral_eq_Suc)
  have f: "gWaveDataBufferSize ?g = WAVE_BUFFER_SIZE" by (simp add: WAVE_BUFFER_SIZE_def)
  from ring_buffer_store [OF i, of 7] f
  have a: "wave_window (wave_store 7 ?g) = 7 # take (gWaveBufferMinSize ?g) (wave_window ?g)"
    and b: "gWaveDataBufferSize (wave_store 7 ?g) = Suc (gWaveBufferMinSize ?g)"
    by blast+
  have c: "wave_window ?g = replicate 1024 0"
    by (simp add: wave_window_def WAVE_BUFFER_SIZE_def)
  show ?thesis using i a b c t by simp
qed

text \<open>
  Claim C2 as stated fails: 1025 stores into the empty buffer (no watermark recorded) leave
  one readable sample, the last one stored, and not the most recent 1024. Written as one
  block of 1025 mono samples through the callback, the sample that remains is the first of
  the block, since a block is stored from its last sample to its first.
\<close>

theorem ring_buffer_overflow_counterexample:
  "wave_window (fold wave_store (map int [0..<1025]) wave_init) = [1024] \<and>
   gWaveDataBufferSize (fold wave_store (map int [0..<1025]) wave_init) = 1 \<and>
   wave_window (waveDataCallback (map real [0..<1025]) 1025 1 wave_init) = [0] \<and>
   gWaveDataBufferSize (waveDataCallback (map real [0..<1025]) 1025 1 wave_init) = 1"
proof -
  have stores: "wave_window (fold wave_store (map int [0..<1025]) wave_init) = [1024] \<and>
     gWaveDataBufferSize (fold wave_store (map int [0..<1025]) wave_init) = 1"
  proof -
    define g where "g = fold wave_store (map int [0..<1024]) (wave_init :: int wave_globals)"
    have inv: "wave_inv g" unfolding g_def by (rule fold_wave_store_inv [OF wave_init_inv])
    have "gWaveDataBufferSize (wave_init :: int wave_globals) + length (map int [0..<1024])
            \<le> WAVE_BUFFER_SIZE"
      by (simp add: wave_init_def WAVE_BUFFER_SIZE_def)
    from fold_wave_store_room [OF wave_init_inv this]
    have sz: "gWaveDataBufferSize g = WAVE_BUFFER_SIZE"
      by (simp add: g_def wave_init_def WAVE_BUFFER_SIZE_def)
    have m: "gWaveBufferMinSize g = 0" by (simp add: g_def wave_init_def)
    have split: "map int [0..<1025] = map int [0..<1024] @ [1024]"
    proof -
      have "[0..<1025] = [0..<Suc 1024]" by simp
      also have "\<dots> = [0..<1024] @ [1024]" by (rule upt_Suc_append) simp
      finally show ?thesis by simp
    qed
    have "fold wave_store (map int [0..<1025]) (wave_init :: int wave_globals) = wave_store 1024 g"
      by (simp add: split g_def)
    then show ?thesis
      using wave_store_window_full [OF inv sz, of 1024] m sz
      by (simp add: wave_store_size)
  qed
  have block: "wave_window (waveDataCallback (map real [0..<1025]) 1025 1 wave_init) = [0] \<and>
     gWaveDataBufferSize (waveDataCallback (map real [0..<1025]) 1025 1 wave_init) = 1"
  proof -
    define g where "g = fold wave_store (rev (map real [Suc 0..<1025])) (wave_init :: real wave_globals)"
    have inv: "wave_inv g" unfolding g_def by (rule fold_wave_store_inv [OF wave_init_inv])
    have "gWaveDataBufferSize (wave_init :: real wave_globals) + length (rev (map real [Suc 0..<1025]))
            \<le> WAVE_BUFFER_SIZE"
      by (simp add: wave_init_def WAVE_BUFFER_SIZE_def)
    from fold_wave_store_room [OF wave_init_inv this]
    have sz: "gWaveDataBufferSize g = WAVE_BUFFER_SIZE"
      by (simp add: g_def wave_init_def WAVE_BUFFER_SIZE_def)
    have m: "gWaveBufferMinSize g = 0" by (simp add: g_def wave_init_def)
    have "[0..<1025] = 0 # [Suc 0..<1025]" by (rule upt_conv_Cons) simp
    then have split: "map real [0..<1025] = 0 # map real [Suc 0..<1025]" by simp
    have "length (map real [0..<1025]) = 1025" by simp
    then have "mix_down (map real [0..<1025]) 1025 1 = map real [0..<1025]"
      using mix_down_mono [of "map real [0..<1025]"] by simp
    then have "waveDataCallback (map real [0..<1025]) 1025 1 wave_init =
            wave_write (map real [0..<1025]) wave_init"
      by (simp add: waveDataCallback_def)
    also have "\<dots> = wave_store 0 g"
      unfolding split by (simp add: wave_write_def g_def)
    finally show ?thesis
      using wave_store_window_full [OF inv sz, of 0] m sz
      by (simp add: wave_store_size)
  qed
  show ?thesis using stores block by simp
qed

subsection \<open>Text decoding\<close>

lemma char_value_unsigned [simp]: "char_value False c = uint c"
  by (simp add: char_value_def)

lemma char_value_signed_le: "char_value True c \<le> 127"
proof -
  have "sint c < 2 ^ (LENGTH(8) - 1)" by (rule sint_lt)
  then show ?thesis by (simp add: char_value_def)
qed

text \<open>A signed \<open>char\<close> never compares equal to a constant above 127.\<close>

lemma char_value_signed_ne [simp]:
  "char_value True c \<noteq> 0xEF" "char_value True c \<noteq> 0xFE" "char_value True c \<noteq> 0xFF"
  "char_value True c \<noteq> 0xBB" "char_value True c \<noteq> 0xBF"
  using char_value_signed_le [of c] by simp_all

lemma uint_byte_EF [simp]: "uint (c :: byte) = 0xEF \<longleftrightarrow> c = 0xEF"
  by (simp add: word_uint_eq_iff)

lemma uint_byte_BB [simp]: "uint (c :: byte) = 0xBB \<longleftrightarrow> c = 0xBB"
  by (simp add: word_uint_eq_iff)

lemma uint_byte_BF [simp]: "uint (c :: byte) = 0xBF \<longleftrightarrow> c = 0xBF"
  by (simp add: word_uint_eq_iff)

lemma take_3_nth: "length data > 3 \<Longrightarrow> take 3 data = [data ! 0, data ! 1, data ! 2]"
  by (cases data; cases "tl data"; cases "tl (tl data)") (auto simp: numeral_3_eq_3)

lemma utf8_payload_short: "length data \<le> 3 \<Longrightarrow> utf8_payload cs data = data"
  by (simp add: utf8_payload_def)

lemma utf8_payload_signed: "utf8_payload True data = data"
  by (simp add: utf8_payload_def)

lemma utf8_payload_no_bom:
  "take 3 data \<noteq> [0xEF, 0xBB, 0xBF] \<Longrightarrow> utf8_payload cs data = data"
  by (cases cs; cases "length data > 3") (auto simp: utf8_payload_def take_3_nth)

lemma utf8_payload_bom:
  "length data > 3 \<Longrightarrow> take 3 data = [0xEF, 0xBB, 0xBF] \<Longrightarrow>
   utf8_payload False data = drop 3 data"
  by (simp add: utf8_payload_def take_3_nth)

lemma strip_trailing_nul_snoc: "strip_trailing_nul (out @ [0]) = out"
  by (simp add: strip_trailing_nul_def)

lemma strip_trailing_nul_id:
  "out = [] \<or> last out \<noteq> 0 \<Longrightarrow> strip_trailing_nul out = out"
  by (auto simp: strip_trailing_nul_def)

lemma store_tag_key:
  "tag_value P tag = Some v \<Longrightarrow>
   store_tag P tag m (translate_tag_name (tag_type tag) (tag_name tag)) = Some v"
  by (simp add: store_tag_def)

text \<open>What the decoder does on the inputs where it is right.\<close>

lemma utf16_no_marker: "utf16input_units cs [0x00, 0x41] UTF16 = [0x0041]"
  by (simp add: utf16input_units_def Let_def read_u16_def swap_u16_def)

lemma utf16_le_marker_unsigned: "utf16input_units False [0xFF, 0xFE, 0x41, 0x00] UTF16 = [0x0041]"
  by (simp add: utf16input_units_def Let_def read_u16_def swap_u16_def)

lemma utf16_le_marker_signed:
  "utf16input_units True [0xFF, 0xFE, 0x41, 0x00] UTF16 = [0xFFFE, 0x4100]"
  by (simp add: utf16input_units_def Let_def read_u16_def swap_u16_def)

text \<open>
  Claim C4 at the input \<open>FE FF 00 41\<close> (big-endian marker, then "A") with auto-detection.
  The claim has it decode to "A", the single unit \<open>0041\<close>. Where \<open>char\<close> is unsigned the
  marker is stripped, but the type is then read from the byte after the marker (\<open>00\<close>, not
  \<open>FE\<close>), little-endian is chosen and the unit handed to the converter is \<open>4100\<close>. Where
  \<open>char\<close> is signed no marker is ever seen, and the units are \<open>FEFF 0041\<close>.
\<close>

theorem utf16_be_marker_misdecoded:
  "utf16input_units False [0xFE, 0xFF, 0x00, 0x41] UTF16 = [0x4100] \<and>
   utf16input_units True [0xFE, 0xFF, 0x00, 0x41] UTF16 = [0xFEFF, 0x0041] \<and>
   utf16input_to_utf8 P [0xFE, 0xFF, 0x00, 0x41] UTF16 =
     utf16str_to_utf8str P (if char_is_signed P then [0xFEFF, 0x0041] else [0x4100])"
  by (cases "char_is_signed P")
     (simp_all add: utf16input_to_utf8_def utf16input_units_def Let_def read_u16_def swap_u16_def)

text \<open>
  What is stored for a string payload: for each of the four string payload types, the
  decoded text with one trailing NUL removed if there is one. The decoded text of a UTF-8
  payload is the payload itself when it has at most 3 bytes or does not begin with
  \<open>EF BB BF\<close>; where the comparison sees the bytes as unsigned, a longer payload that begins
  with \<open>EF BB BF\<close> loses these three bytes.
\<close>

lemma text_payload_stored:
  "(tag_datatype tag = FMOD_TAGDATATYPE_STRING \<longrightarrow>
      store_tag P tag m (translate_tag_name (tag_type tag) (tag_name tag)) =
        Some (LLSD_String (strip_trailing_nul (rawstr_to_utf8 P (tag_data tag))))) \<and>
   (tag_datatype tag = FMOD_TAGDATATYPE_STRING_UTF8 \<longrightarrow>
      store_tag P tag m (translate_tag_name (tag_type tag) (tag_name tag)) =
        Some (LLSD_String (strip_trailing_nul (utf8_payload (char_is_signed P) (tag_data tag))))) \<and>
   (tag_datatype tag = FMOD_TAGDATATYPE_STRING_UTF16 \<longrightarrow>
      store_tag P tag m (translate_tag_name (tag_type tag) (tag_name tag)) =
        Some (LLSD_String (strip_trailing_nul (utf16input_to_utf8 P (tag_data tag) UTF16)))) \<and>
   (tag_datatype tag = FMOD_TAGDATATYPE_STRING_UTF16BE \<longrightarrow>
      store_tag P tag m (translate_tag_name (tag_type tag) (tag_name tag)) =
        Some (LLSD_String (strip_trailing_nul (utf16input_to_utf8 P (tag_data tag) UTF16BE)))) \<and>
   strip_trailing_nul (out @ [0]) = out \<and>
   (out = [] \<or> last out \<noteq> 0 \<longrightarrow> strip_trailing_nul out = out) \<and>
   (length data \<le> 3 \<or> take 3 data \<noteq> [0xEF, 0xBB, 0xBF] \<longrightarrow> utf8_payload cs data = data) \<and>
   (length data > 3 \<and> take 3 data = [0xEF, 0xBB, 0xBF] \<longrightarrow>
      utf8_payload False data = drop 3 data)"
proof -
  have "tag_datatype tag = FMOD_TAGDATATYPE_STRING \<Longrightarrow>
        tag_value P tag = Some (LLSD_String (strip_trailing_nul (rawstr_to_utf8 P (tag_data tag))))"
    by (simp add: tag_value_def)
  moreover have "tag_datatype tag = FMOD_TAGDATATYPE_STRING_UTF8 \<Longrightarrow>
        tag_value P tag =
          Some (LLSD_String (strip_trailing_nul (utf8_payload (char_is_signed P) (tag_data tag))))"
    by (simp add: tag_value_def)
  moreover have "tag_datatype tag = FMOD_TAGDATATYPE_STRING_UTF16 \<Longrightarrow>
        tag_value P tag =
          Some (LLSD_String (strip_trailing_nul (utf16input_to_utf8 P (tag_data tag) UTF16)))"
    by (simp add: tag_value_def)
  moreover have "tag_datatype tag = FMOD_TAGDATATYPE_STRING_UTF16BE \<Longrightarrow>
        tag_value P tag =
          Some (LLSD_String (strip_trailing_nul (utf16input_to_utf8 P (tag_data tag) UTF16BE)))"
    by (simp add: tag_value_def)
  moreover have "length data \<le> 3 \<or> take 3 data \<noteq> [0xEF, 0xBB, 0xBF] \<Longrightarrow>
        utf8_payload cs data = data"
    using utf8_payload_short utf8_payload_no_bom by blast
  ultimately show ?thesis
    using strip_trailing_nul_snoc [of out] strip_trailing_nul_id [of out]
      utf8_payload_bom [of data]
    by (simp add: store_tag_key)
qed

text \<open>
  A session on the engine that reports the tag: \<open>start "a"\<close> and one \<open>update\<close>, which starts
  the channel and reads the tag.
\<close>

lemma tagged_run:
  "\<not> isl (run signed_platform [Start ''a'', Update] (new_streaming_audio (engine tagged_script) True))"
  "stored_artist (projr (run signed_platform [Start ''a'', Update]
      (new_streaming_audio (engine tagged_script) True))) =
     Some (LLSD_String [0xEF, 0xBB, 0xBF, 0x41])"
  "stored_artist (projr (run unsigned_platform [Start ''a'', Update]
      (new_streaming_audio (engine tagged_script) True))) =
     Some (LLSD_String [0x41])"
  by code_simp+

text \<open>
  Claim C7 at the UTF-8 payload \<open>EF BB BF 41 00\<close> (marker, "A", NUL) where plain \<open>char\<close> is
  signed. The claim has the marker stripped and "A" stored. The test at source line 371
  compares a \<open>char\<close> with \<open>0xEF\<close>, \<open>0xBB\<close> and \<open>0xBF\<close>, which a signed \<open>char\<close> never
  equals: no UTF-8 payload loses its marker, only the trailing NUL is removed, and
  \<open>EF BB BF 41\<close> is what \<open>update\<close> leaves in the metadata under ARTIST. Whatever the
  signedness, the payload that is the marker alone is kept, its length not being above 3.
\<close>

theorem utf8_marker_kept_where_char_is_signed:
  "utf8_payload True data = data \<and>
   tag_value signed_platform (text_tag FMOD_TAGDATATYPE_STRING_UTF8 data) =
     Some (LLSD_String (strip_trailing_nul data)) \<and>
   store_tag signed_platform
     (text_tag FMOD_TAGDATATYPE_STRING_UTF8 [0xEF, 0xBB, 0xBF, 0x41, 0x00]) m ''ARTIST'' =
     Some (LLSD_String [0xEF, 0xBB, 0xBF, 0x41]) \<and>
   stored_artist (process_tag signed_platform ch
     (text_tag FMOD_TAGDATATYPE_STRING_UTF8 [0xEF, 0xBB, 0xBF, 0x41, 0x00])
     (a\<lparr>mMetaData := Some Map.empty\<rparr>)) =
     Some (LLSD_String [0xEF, 0xBB, 0xBF, 0x41]) \<and>
   run signed_platform [Start ''a'', Update] (new_streaming_audio (engine tagged_script) True) =
     Inr (projr (run signed_platform [Start ''a'', Update]
       (new_streaming_audio (engine tagged_script) True))) \<and>
   stored_artist (projr (run signed_platform [Start ''a'', Update]
      (new_streaming_audio (engine tagged_script) True))) =
     Some (LLSD_String [0xEF, 0xBB, 0xBF, 0x41]) \<and>
   utf8_payload cs [0xEF, 0xBB, 0xBF] = [0xEF, 0xBB, 0xBF]"
proof -
  have key: "translate_tag_name FMOD_TAGTYPE_ID3V2 ''TPE1'' = ''ARTIST''"
    by (simp add: translate_tag_name_def compareInsensitive_0_def toUpper_def toUpper_char_def)
  have tv: "tag_value signed_platform (text_tag FMOD_TAGDATATYPE_STRING_UTF8 d) =
     Some (LLSD_String (strip_trailing_nul d))" for d
    by (simp add: tag_value_def text_tag_def signed_platform_def unsigned_platform_def
          utf8_payload_signed)
  have st: "store_tag signed_platform
     (text_tag FMOD_TAGDATATYPE_STRING_UTF8 [0xEF, 0xBB, 0xBF, 0x41, 0x00]) m' ''ARTIST'' =
     Some (LLSD_String [0xEF, 0xBB, 0xBF, 0x41])" for m'
    using tv [of "[0xEF, 0xBB, 0xBF, 0x41, 0x00]"] key
    by (simp add: store_tag_def text_tag_def strip_trailing_nul_def)
  have pt: "stored_artist (process_tag signed_platform ch
     (text_tag FMOD_TAGDATATYPE_STRING_UTF8 [0xEF, 0xBB, 0xBF, 0x41, 0x00])
     (a\<lparr>mMetaData := Some Map.empty\<rparr>)) =
     Some (LLSD_String [0xEF, 0xBB, 0xBF, 0x41])"
    using st [of Map.empty] by (simp add: process_tag_def stored_artist_def text_tag_def)
  have r: "run signed_platform [Start ''a'', Update] (new_streaming_audio (engine tagged_script) True) =
     Inr (projr (run signed_platform [Start ''a'', Update]
       (new_streaming_audio (engine tagged_script) True)))"
    using tagged_run(1)
    by (cases "run signed_platform [Start ''a'', Update]
       (new_streaming_audio (engine tagged_script) True)") simp_all
  show ?thesis
    using tv [of data] st [of m] pt r tagged_run(2) utf8_payload_short [of "[0xEF, 0xBB, 0xBF]" cs]
    by (simp add: utf8_payload_signed)
qed

subsection \<open>Engine calls: what each one leaves in the log\<close>

lemma record_call_simps [simp]:
  "calls (record_call c s) = calls s @ [c]"
  "script (record_call c s) = script s"
  "paused (record_call c s) = paused s"
  "tick (record_call c s) = Suc (tick s)"
  by (simp_all add: record_call_def tick_def)

lemma tick_update_paused [simp]: "tick (s\<lparr>paused := p\<rparr>) = tick s"
  by (simp add: tick_def)

lemma getOpenState_stream:
  "mInternetStream h = Some sound \<Longrightarrow> getOpenState h s = Inr (fmod_getOpenState sound s)"
  by (simp add: getOpenState_def)

lemma getOpenState_null:
  "mInternetStream h = None \<Longrightarrow> getOpenState h s = Inl Null_stream_dereferenced"
  by (simp add: getOpenState_def)

subsection \<open>The stream handle\<close>

text \<open>
  Claim C6. A handle without a stream has nothing to release: \<open>stopStream\<close> answers true and
  makes no engine call. With a stream, the open state is polled. If it is
  \<open>FMOD_OPENSTATE_CONNECTING\<close>, the answer is false, the handle is unchanged and the poll is the
  only engine call: no release is attempted. In every other state the release is called
  right after the poll and the answer is the success of that call; on success the stream
  and channel pointers of the handle are cleared, on failure the handle is unchanged.
\<close>

theorem stopStream_defers_while_connecting:
  "(mInternetStream h = None \<longrightarrow> stopStream h s = (True, h, s)) \<and>
   (mInternetStream h = Some sound \<and>
    openstate (getOpenState_res (script s) (tick s)) = FMOD_OPENSTATE_CONNECTING \<longrightarrow>
      fst (stopStream h s) = False \<and>
      fst (snd (stopStream h s)) = h \<and>
      calls (snd (snd (stopStream h s))) = calls s @ [Call_getOpenState sound]) \<and>
   (mInternetStream h = Some sound \<and>
    openstate (getOpenState_res (script s) (tick s)) \<noteq> FMOD_OPENSTATE_CONNECTING \<longrightarrow>
      calls (snd (snd (stopStream h s))) =
        calls s @ [Call_getOpenState sound, Call_release sound] \<and>
      fst (stopStream h s) = release_ok (script s) (Suc (tick s)) \<and>
      (fst (stopStream h s) \<longrightarrow>
         mInternetStream (fst (snd (stopStream h s))) = None \<and>
         mStreamChannel (fst (snd (stopStream h s))) = None \<and>
         mInternetStreamURL (fst (snd (stopStream h s))) = mInternetStreamURL h) \<and>
      (\<not> fst (stopStream h s) \<longrightarrow> fst (snd (stopStream h s)) = h))"
  by (simp add: stopStream_def fmod_getOpenState_def fmod_release_def Let_def)

text \<open>
  A handle on sound 0: while the engine reports CONNECTING the stop is refused and only the
  poll is logged; once it reports READY the release is called and the handle is cleared.
\<close>

theorem stopStream_defers_while_connecting_witness:
  "fst (stopStream (open_handle 0) (engine (steady_script FMOD_OPENSTATE_CONNECTING True))) = False \<and>
   calls (snd (snd (stopStream (open_handle 0)
      (engine (steady_script FMOD_OPENSTATE_CONNECTING True))))) = [Call_getOpenState 0] \<and>
   fst (stopStream (open_handle 0) (engine (steady_script FMOD_OPENSTATE_READY True))) = True \<and>
   calls (snd (snd (stopStream (open_handle 0)
      (engine (steady_script FMOD_OPENSTATE_READY True))))) =
     [Call_getOpenState 0, Call_release 0] \<and>
   mInternetStream (fst (snd (stopStream (open_handle 0)
      (engine (steady_script FMOD_OPENSTATE_READY True))))) = None \<and>
   stopStream (open_handle 0\<lparr>mInternetStream := None\<rparr>)
      (engine (steady_script FMOD_OPENSTATE_READY True)) =
     (True, open_handle 0\<lparr>mInternetStream := None\<rparr>,
      engine (steady_script FMOD_OPENSTATE_READY True))"
proof -
  let ?c = "engine (steady_script FMOD_OPENSTATE_CONNECTING True)"
  let ?r = "engine (steady_script FMOD_OPENSTATE_READY True)"
  have c: "mInternetStream (open_handle 0) = Some 0 \<and>
           openstate (getOpenState_res (script ?c) (tick ?c)) = FMOD_OPENSTATE_CONNECTING"
    by (simp add: open_handle_def engine_def steady_script_def)
  have r: "mInternetStream (open_handle 0) = Some 0 \<and>
           openstate (getOpenState_res (script ?r) (tick ?r)) \<noteq> FMOD_OPENSTATE_CONNECTING"
    by (simp add: open_handle_def engine_def steady_script_def)
  have ok: "release_ok (script ?r) (Suc (tick ?r))"
    by (simp add: engine_def steady_script_def)
  have e: "calls ?c = []" "calls ?r = []" by (simp_all add: engine_def)
  have n: "mInternetStream (open_handle 0\<lparr>mInternetStream := None\<rparr>) = None" by simp
  show ?thesis
    using stopStream_defers_while_connecting [of "open_handle 0" ?c 0]
      stopStream_defers_while_connecting [of "open_handle 0" ?r 0]
      stopStream_defers_while_connecting [of "open_handle 0\<lparr>mInternetStream := None\<rparr>" ?r 0]
      c r ok e n
    by simp
qed

subsection \<open>The controller: what each step leaves unchanged\<close>

lemma llclamp_unit: "0 \<le> llclamp x 0 1 \<and> llclamp x 0 1 \<le> 1"
  by (simp add: llclamp_def)

lemma llclamp_square: "llclamp (v * v) 0 1 = min (v * v) 1"
  by (simp add: llclamp_def min_def not_less [symmetric] )

lemma stop_fields:
  "mURL (stop a) = mURL a" "mGain (stop a) = mGain a" "mStreamDSP (stop a) = mStreamDSP a"
  "mPendingURL (stop a) = []" "mMetaData (stop a) = None"
  "mFMODInternetStreamChannelp (stop a) = None" "mCurrentInternetStreamp (stop a) = None"
  by (simp_all add: stop_def Let_def split: option.splits prod.splits)

lemma open_stream_URL: "mURL (open_stream url a) = url"
  by (simp add: open_stream_def Let_def split: prod.splits)



lemma same_control_refl [simp]: "same_control a a"
  by (simp add: same_control_def)

lemma same_control_trans: "same_control a b \<Longrightarrow> same_control b c \<Longrightarrow> same_control a c"
proof -
  assume ab: "same_control a b" and bc: "same_control b c"
  have "c = b\<lparr>mSystem := mSystem c, mMetaData := mMetaData c\<rparr>"
    using bc by (simp add: same_control_def)
  also have "b = a\<lparr>mSystem := mSystem b, mMetaData := mMetaData b\<rparr>"
    using ab by (simp add: same_control_def)
  finally have "c = a\<lparr>mSystem := mSystem c, mMetaData := mMetaData c\<rparr>" by simp
  then show ?thesis by (simp add: same_control_def)
qed

lemma same_control_upd [simp]:
  "same_control a (a\<lparr>mSystem := s\<rparr>)"
  "same_control a (a\<lparr>mMetaData := m\<rparr>)"
  "same_control a (a\<lparr>mSystem := s, mMetaData := m\<rparr>)"
  "same_control a (a\<lparr>mMetaData := m, mSystem := s\<rparr>)"
  by (simp_all add: same_control_def)

lemma same_control_upd_right:
  "same_control a b \<Longrightarrow> same_control a (b\<lparr>mSystem := s\<rparr>)"
  "same_control a b \<Longrightarrow> same_control a (b\<lparr>mMetaData := m\<rparr>)"
  by (rule same_control_trans, assumption, simp)+

lemma same_control_upd_left:
  "same_control a b \<Longrightarrow> same_control (a\<lparr>mSystem := s\<rparr>) b"
  "same_control a b \<Longrightarrow> same_control (a\<lparr>mMetaData := m\<rparr>) b"
  by (simp_all add: same_control_def)

lemma same_controlD:
  assumes "same_control a b"
  shows "mCurrentInternetStreamp b = mCurrentInternetStreamp a"
    and "mFMODInternetStreamChannelp b = mFMODInternetStreamChannelp a"
    and "mDeadStreams b = mDeadStreams a"
    and "mURL b = mURL a"
    and "mPendingURL b = mPendingURL a"
    and "mGain b = mGain a"
    and "mStreamDSP b = mStreamDSP a"
    and "wave b = wave a"
    and "live_managers b = live_managers a"
proof -
  have e: "b = a\<lparr>mSystem := mSystem b, mMetaData := mMetaData b\<rparr>"
    using assms by (simp add: same_control_def)
  show "mCurrentInternetStreamp b = mCurrentInternetStreamp a" by (subst e) simp
  show "mFMODInternetStreamChannelp b = mFMODInternetStreamChannelp a" by (subst e) simp
  show "mDeadStreams b = mDeadStreams a" by (subst e) simp
  show "mURL b = mURL a" by (subst e) simp
  show "mPendingURL b = mPendingURL a" by (subst e) simp
  show "mGain b = mGain a" by (subst e) simp
  show "mStreamDSP b = mStreamDSP a" by (subst e) simp
  show "wave b = wave a" by (subst e) simp
  show "live_managers b = live_managers a" by (subst e) simp
qed

lemma process_tag_same: "same_control a (process_tag P ch tag a)"
  by (simp add: process_tag_def)

lemma tag_loop_same: "same_control a (tag_loop P ch is a)"
proof (induction "is" arbitrary: a)
  case Nil
  show ?case by simp
next
  case (Cons i rest)
  obtain r s1 where g: "fmod_getTag i (mSystem a) = (r, s1)" by (cases "fmod_getTag i (mSystem a)")
  let ?a2 = "case r of None \<Rightarrow> a\<lparr>mSystem := s1\<rparr>
             | Some tag \<Rightarrow> process_tag P ch tag (a\<lparr>mSystem := s1\<rparr>)"
  have "same_control a ?a2"
  proof (cases r)
    case None then show ?thesis by simp
  next
    case (Some tag)
    have "same_control a (process_tag P ch tag (a\<lparr>mSystem := s1\<rparr>))"
      by (rule same_control_trans [OF same_control_upd(1) process_tag_same])
    then show ?thesis using Some by simp
  qed
  moreover have "same_control ?a2 (tag_loop P ch rest ?a2)" by (rule Cons.IH)
  moreover have "tag_loop P ch (i # rest) a = tag_loop P ch rest ?a2"
    using g by (simp add: Let_def)
  ultimately show ?case using same_control_trans by metis
qed

lemma update_channel_same: "same_control a (update_channel P rep a)"
proof (cases "mFMODInternetStreamChannelp a")
  case None
  then show ?thesis by (simp add: update_channel_def)
next
  case (Some ch)
  let ?a1 = "if mMetaData a = None then a\<lparr>mMetaData := Some Map.empty\<rparr> else a"
  obtain ok s1 where g: "fmod_getCurrentSound ch (mSystem ?a1) = (ok, s1)"
    by (cases "fmod_getCurrentSound ch (mSystem ?a1)")
  obtain nt s2 where n: "fmod_getNumTags s1 = (nt, s2)" by (cases "fmod_getNumTags s1")
  have a1: "same_control a ?a1" by simp
  show ?thesis
  proof (cases ok)
    case False
    then have "update_channel P rep a = ?a1\<lparr>mSystem := s1\<rparr>"
      using Some g by (simp add: update_channel_def Let_def)
    then show ?thesis using same_control_upd_right(1) [OF a1] by simp
  next
    case True
    let ?a3 = "?a1\<lparr>mSystem := s2\<rparr>"
    let ?a4 = "case nt of None \<Rightarrow> ?a3
        | Some (tagcount, dirtytagcount) \<Rightarrow>
            if dirtytagcount \<noteq> 0
            then tag_loop P ch [0..<nat tagcount] (?a3\<lparr>mMetaData := Some Map.empty\<rparr>)
            else ?a3"
    have a3: "same_control a ?a3" by (rule same_control_upd_right(1) [OF a1])
    have "same_control a ?a4"
    proof (cases nt)
      case None
      then show ?thesis using a3 by simp
    next
      case (Some p)
      obtain tc dc where p: "p = (tc, dc)" by (cases p)
      show ?thesis
      proof (cases "dc = 0")
        case True
        then show ?thesis using Some p a3 by simp
      next
        case False
        have "same_control a (tag_loop P ch [0..<nat tc] (?a3\<lparr>mMetaData := Some Map.empty\<rparr>))"
          by (rule same_control_trans [OF same_control_upd_right(2) [OF a3] tag_loop_same])
        then show ?thesis using Some p False by simp
      qed
    qed
    then have "same_control a
       (?a4\<lparr>mSystem := starvation_policy (starving rep) (percentbuffered rep) ch (mSystem ?a4)\<rparr>)"
      by (rule same_control_upd_right(1))
    moreover have "update_channel P rep a =
          ?a4\<lparr>mSystem := starvation_policy (starving rep) (percentbuffered rep) ch (mSystem ?a4)\<rparr>"
      using \<open>mFMODInternetStreamChannelp a = Some ch\<close> g n True
      by (simp add: update_channel_def Let_def)
    ultimately show ?thesis by simp
  qed
qed

text \<open>
  Claim C8. The gain is stored as it is given and read back unchanged. With a channel, the
  one engine call made is \<open>setVolume\<close> with the square of the gain clamped into [0,1] (the
  square itself when it is at most 1, and 1 above that); without a channel the engine is not
  called. For the gain 1/2 the value read back is 1/2 and the volume set is 1/4.
\<close>

theorem setGain_linear_store_squared_volume:
  "getGain (setGain v a) = v \<and>
   (mFMODInternetStreamChannelp a = None \<longrightarrow> mSystem (setGain v a) = mSystem a) \<and>
   (mFMODInternetStreamChannelp a = Some ch \<longrightarrow>
      calls (mSystem (setGain v a)) = calls (mSystem a) @ [Call_setVolume ch (llclamp (v * v) 0 1)] \<and>
      0 \<le> llclamp (v * v) 0 1 \<and> llclamp (v * v) 0 1 \<le> 1 \<and>
      (v * v \<le> 1 \<longrightarrow> llclamp (v * v) 0 1 = v * v) \<and>
      (1 < v * v \<longrightarrow> llclamp (v * v) 0 1 = 1) \<and>
      calls (mSystem (setGain (1 / 2) a)) = calls (mSystem a) @ [Call_setVolume ch (1 / 4)]) \<and>
   getGain (setGain (1 / 2) a) = 1 / 2"
  by (auto simp: setGain_def getGain_def Let_def fmod_setVolume_def llclamp_def not_less split: option.splits)

text \<open>
  A controller holding channel 7 right after its constructor, set to the gains 1/2 and 3,
  and one without a channel.
\<close>

theorem setGain_linear_store_squared_volume_witness:
  "getGain (setGain (1 / 2) ((new_streaming_audio (engine (steady_script FMOD_OPENSTATE_READY True))
      False)\<lparr>mFMODInternetStreamChannelp := Some 7\<rparr>)) = 1 / 2 \<and>
   calls (mSystem (setGain (1 / 2)
     ((new_streaming_audio (engine (steady_script FMOD_OPENSTATE_READY True)) False)
        \<lparr>mFMODInternetStreamChannelp := Some 7\<rparr>))) =
     [Call_DSP_setActive False, Call_setVolume 7 (1 / 4)] \<and>
   calls (mSystem (setGain 3
     ((new_streaming_audio (engine (steady_script FMOD_OPENSTATE_READY True)) False)
        \<lparr>mFMODInternetStreamChannelp := Some 7\<rparr>))) =
     [Call_DSP_setActive False, Call_setVolume 7 1] \<and>
   mSystem (setGain 3 (new_streaming_audio (engine (steady_script FMOD_OPENSTATE_READY True)) False)) =
     fmod_DSP_setActive False (engine (steady_script FMOD_OPENSTATE_READY True))"
proof -
  let ?ini = "new_streaming_audio (engine (steady_script FMOD_OPENSTATE_READY True)) False"
  let ?a = "?ini\<lparr>mFMODInternetStreamChannelp := Some 7\<rparr>"
  have c: "mFMODInternetStreamChannelp ?a = Some 7"
    "calls (mSystem ?a) = [Call_DSP_setActive False]"
    "mFMODInternetStreamChannelp ?ini = None"
    "mSystem ?ini = fmod_DSP_setActive False (engine (steady_script FMOD_OPENSTATE_READY True))"
    by (simp_all add: new_streaming_audio_def engine_def fmod_DSP_setActive_def)
  have three: "(1::real) < 3 * 3" by simp
  show ?thesis
    using setGain_linear_store_squared_volume [of "1 / 2" ?a 7]
      setGain_linear_store_squared_volume [of 3 ?a 7]
      setGain_linear_store_squared_volume [of 3 ?ini 7] c three
    by simp
qed

subsection \<open>The controller: streams created, and the invariant\<close>

lemma streams_created_simps [simp]:
  "streams_created (record_call c s) = streams_created s @ created_of c"
  "streams_created (s\<lparr>paused := p\<rparr>) = streams_created s"
  by (simp_all add: streams_created_def)

lemma setPaused_calls_simps [simp]:
  "setPaused_calls (record_call c s) = setPaused_calls s @ setPaused_of c"
  "setPaused_calls (s\<lparr>paused := p\<rparr>) = setPaused_calls s"
  by (simp_all add: setPaused_calls_def)

lemma stopStream_engine:
  "streams_created (snd (snd (stopStream h s))) = streams_created s"
  "setPaused_calls (snd (snd (stopStream h s))) = setPaused_calls s"
  "paused (snd (snd (stopStream h s))) = paused s"
  "script (snd (snd (stopStream h s))) = script s"
  by (simp_all add: stopStream_def fmod_getOpenState_def fmod_release_def Let_def
        split: option.splits)

lemma release_loop_engine:
  "streams_created (snd (release_loop hs s)) = streams_created s \<and>
   setPaused_calls (snd (release_loop hs s)) = setPaused_calls s \<and>
   paused (snd (release_loop hs s)) = paused s \<and>
   script (snd (release_loop hs s)) = script s"
proof (induction hs arbitrary: s)
  case Nil
  show ?case by simp
next
  case (Cons h hs)
  obtain ok h1 s1 where st: "stopStream h s = (ok, h1, s1)" by (cases "stopStream h s") auto
  have s1: "streams_created s1 = streams_created s" "setPaused_calls s1 = setPaused_calls s"
    "paused s1 = paused s" "script s1 = script s"
    using stopStream_engine [of h s] st by simp_all
  obtain kept s2 where r: "release_loop hs s1 = (kept, s2)" by (cases "release_loop hs s1")
  show ?case
    using Cons.IH [of s1] st s1 r by (simp add: Let_def)
qed

lemma release_loop_length: "length (fst (release_loop hs s)) \<le> length hs"
proof (induction hs arbitrary: s)
  case Nil
  show ?case by simp
next
  case (Cons h hs)
  obtain ok h1 s1 where st: "stopStream h s = (ok, h1, s1)" by (cases "stopStream h s") auto
  obtain kept s2 where r: "release_loop hs s1 = (kept, s2)" by (cases "release_loop hs s1")
  show ?case
    using Cons.IH [of s1] st r by (simp add: Let_def)
qed

lemma releaseDeadStreams_fields:
  "mCurrentInternetStreamp (snd (releaseDeadStreams a)) = mCurrentInternetStreamp a"
  "mFMODInternetStreamChannelp (snd (releaseDeadStreams a)) = mFMODInternetStreamChannelp a"
  "mURL (snd (releaseDeadStreams a)) = mURL a"
  "mPendingURL (snd (releaseDeadStreams a)) = mPendingURL a"
  "wave (snd (releaseDeadStreams a)) = wave a"
  "fst (releaseDeadStreams a) \<longleftrightarrow> mDeadStreams (snd (releaseDeadStreams a)) = []"
  "length (mDeadStreams (snd (releaseDeadStreams a))) \<le> length (mDeadStreams a)"
  "live_managers (snd (releaseDeadStreams a)) + length (mDeadStreams a) =
     live_managers a + length (mDeadStreams (snd (releaseDeadStreams a)))
   \<or> live_managers a < length (mDeadStreams a)"
  "streams_created (mSystem (snd (releaseDeadStreams a))) = streams_created (mSystem a)"
  "setPaused_calls (mSystem (snd (releaseDeadStreams a))) = setPaused_calls (mSystem a)"
  using release_loop_length [of "mDeadStreams a" "mSystem a"]
    release_loop_engine [of "mDeadStreams a" "mSystem a"]
  by (auto simp: releaseDeadStreams_def Let_def split: prod.splits)

lemma stop_created: "streams_created (mSystem (stop a)) = streams_created (mSystem a)"
proof -
  have "\<And>h s. streams_created (snd (snd (stopStream h s))) = streams_created s"
    by (rule stopStream_engine(1))
  then have k: "\<And>h s ok h1 s1. stopStream h s = (ok, h1, s1) \<Longrightarrow>
      streams_created s1 = streams_created s"
    by (metis snd_conv)
  show ?thesis
    by (auto simp: stop_def Let_def fmod_lockDSP_def fmod_unlockDSP_def fmod_DSP_setActive_def
        fmod_setPaused_def fmod_setPriority_def split: option.splits prod.splits dest!: k)
qed

lemma stop_dead:
  "mDeadStreams (stop a) = mDeadStreams a \<or>
   (\<exists>h. mCurrentInternetStreamp a \<noteq> None \<and> mDeadStreams (stop a) = mDeadStreams a @ [h])"
  by (auto simp: stop_def Let_def split: option.splits prod.splits)

lemma stop_dead_nonempty: "mDeadStreams a \<noteq> [] \<Longrightarrow> mDeadStreams (stop a) \<noteq> []"
  using stop_dead [of a] by auto

lemma stop_inv: "controller_inv a \<Longrightarrow> controller_inv (stop a)"
  by (auto simp: controller_inv_def stop_def Let_def wave_inv_def
        split: option.splits prod.splits if_splits)

lemma open_stream_created:
  "streams_created (mSystem (open_stream url a)) = streams_created (mSystem a) @ [url]"
  by (simp add: open_stream_def new_stream_manager_def fmod_createStream_def Let_def)

lemma start_inv: "controller_inv a \<Longrightarrow> controller_inv (start url a)"
proof -
  assume "controller_inv a"
  then have i: "controller_inv (stop a)" by (rule stop_inv)
  have f: "mPendingURL (stop a) = []" "mFMODInternetStreamChannelp (stop a) = None"
    "mCurrentInternetStreamp (stop a) = None"
    by (rule stop_fields)+
  show ?thesis
    using i f
    by (auto simp: start_def Let_def controller_inv_def open_stream_def new_stream_manager_def
          split: prod.splits)
qed

lemma start_deferred:
  assumes "url \<noteq> []" and "mDeadStreams a \<noteq> []"
  shows "mPendingURL (start url a) = url"
    and "mCurrentInternetStreamp (start url a) = None"
    and "mDeadStreams (start url a) \<noteq> []"
    and "streams_created (mSystem (start url a)) = streams_created (mSystem a)"
    and "mURL (start url a) = mURL a"
  using assms stop_dead_nonempty [OF assms(2)] stop_fields [of a] stop_created [of a]
  by (simp_all add: start_def Let_def)

lemma start_opens:
  assumes "url \<noteq> []" and "mDeadStreams (stop a) = []"
  shows "start url a = open_stream url (stop a)"
  using assms by (simp add: start_def Let_def)


lemma controller_inv_upd [simp]:
  "controller_inv (a\<lparr>mSystem := s\<rparr>) = controller_inv a"
  "controller_inv (a\<lparr>mMetaData := m\<rparr>) = controller_inv a"
  "controller_inv (a\<lparr>mGain := g\<rparr>) = controller_inv a"
  "controller_inv (a\<lparr>mURL := u\<rparr>) = controller_inv a"
  by (simp_all add: controller_inv_def)

lemma same_control_inv: "same_control a b \<Longrightarrow> controller_inv b = controller_inv a"
  using same_controlD [of a b] by (simp add: controller_inv_def)

lemma starvation_policy_created:
  "streams_created (starvation_policy st pr ch s) = streams_created s"
  by (simp add: starvation_policy_def fmod_getPaused_def fmod_setPaused_def Let_def)

lemma process_tag_created:
  "streams_created (mSystem (process_tag P ch tag a)) = streams_created (mSystem a)"
  by (simp add: process_tag_def fmod_setFrequency_def)

lemma tag_loop_created:
  "streams_created (mSystem (tag_loop P ch is a)) = streams_created (mSystem a)"
proof (induction "is" arbitrary: a)
  case Nil
  show ?case by simp
next
  case (Cons i rest)
  show ?case
    by (simp add: Let_def fmod_getTag_def Cons.IH process_tag_created split: option.splits)
qed

lemma update_channel_created:
  "streams_created (mSystem (update_channel P rep a)) = streams_created (mSystem a)"
  by (simp add: update_channel_def Let_def fmod_getCurrentSound_def fmod_getNumTags_def
        starvation_policy_created tag_loop_created split: option.splits prod.splits)

lemma setGain_same_sys:
  "streams_created (mSystem (setGain v a)) = streams_created (mSystem a)"
  "setPaused_calls (mSystem (setGain v a)) = setPaused_calls (mSystem a)"
  by (simp_all add: setGain_def Let_def fmod_setVolume_def split: option.splits)

lemma setGain_inv: "controller_inv (setGain v a) = controller_inv a"
  by (simp add: setGain_def Let_def split: option.splits)

lemma update_ready_props:
  "mDeadStreams (update_ready h a) = mDeadStreams a"
  "mPendingURL (update_ready h a) = mPendingURL a"
  "live_managers (update_ready h a) = live_managers a"
  "wave (update_ready h a) = wave a"
  "mURL (update_ready h a) = mURL a"
  "mCurrentInternetStreamp a \<noteq> None \<Longrightarrow> mCurrentInternetStreamp (update_ready h a) \<noteq> None"
  "streams_created (mSystem (update_ready h a)) = streams_created (mSystem a)"
  by (auto simp: update_ready_def startStream_def setGain_def getGain_def Let_def
        fmod_getOpenState_def fmod_playSound_def fmod_setVolume_def fmod_DSP_setActive_def
        fmod_setPaused_def split: option.splits prod.splits if_splits)

lemma update_ready_inv:
  "controller_inv a \<Longrightarrow> mCurrentInternetStreamp a \<noteq> None \<Longrightarrow>
   controller_inv (update_ready h a)"
  using update_ready_props [where h = h and a = a]
  by (auto simp: controller_inv_def)


lemma update_props:
  assumes inv: "controller_inv a"
  shows "update P a \<noteq> Inl Assertion_failed"
    and "update P a = Inr a' \<Longrightarrow>
         controller_inv a' \<and>
         streams_created (mSystem a') = streams_created (mSystem a) @
           (if fst (releaseDeadStreams a) \<and> mPendingURL a \<noteq> [] then [mPendingURL a] else [])"
proof -
  obtain drained b where r: "releaseDeadStreams a = (drained, b)"
    by (cases "releaseDeadStreams a")
  have bf: "mCurrentInternetStreamp b = mCurrentInternetStreamp a"
    "mFMODInternetStreamChannelp b = mFMODInternetStreamChannelp a"
    "mPendingURL b = mPendingURL a" "wave b = wave a"
    "drained \<longleftrightarrow> mDeadStreams b = []"
    "length (mDeadStreams b) \<le> length (mDeadStreams a)"
    "live_managers b + length (mDeadStreams a) = live_managers a + length (mDeadStreams b)
       \<or> live_managers a < length (mDeadStreams a)"
    "streams_created (mSystem b) = streams_created (mSystem a)"
    using releaseDeadStreams_fields [of a] r by simp_all
  have cur_b: "mDeadStreams b = [] \<or> mCurrentInternetStreamp b = None"
    using inv bf(1,6) by (auto simp: controller_inv_def)
  have pend_b: "mPendingURL b = [] \<or> mCurrentInternetStreamp b = None"
    using inv bf(1,3) by (auto simp: controller_inv_def)
  have chan_b: "mFMODInternetStreamChannelp b = None \<or> mCurrentInternetStreamp b \<noteq> None"
    using inv bf(1,2) by (auto simp: controller_inv_def)
  have live_b: "live_managers b =
      (if mCurrentInternetStreamp b = None then 0 else 1) + length (mDeadStreams b)"
    using inv bf(1,6,7) by (auto simp: controller_inv_def)
  have wave_b: "wave_inv (wave b)" using inv bf(4) by (simp add: controller_inv_def)
  show "update P a \<noteq> Inl Assertion_failed"
  proof (cases drained)
    case False
    then have "mCurrentInternetStreamp b = None" using bf(5) cur_b by simp
    then show ?thesis using r False by (simp add: update_def)
  next
    case True
    have "\<not> (mPendingURL b \<noteq> [] \<and> mCurrentInternetStreamp b \<noteq> None)"
      using pend_b by auto
    then show ?thesis
      using r True
      by (auto simp: update_def Let_def getOpenState_def
            split: option.splits sum.splits prod.splits if_splits)
  qed
  show "controller_inv a' \<and>
         streams_created (mSystem a') = streams_created (mSystem a) @
           (if fst (releaseDeadStreams a) \<and> mPendingURL a \<noteq> [] then [mPendingURL a] else [])"
    if u: "update P a = Inr a'"
  proof (cases drained)
    case False
    then have c: "mCurrentInternetStreamp b = None" and d: "mDeadStreams b \<noteq> []"
      using bf(5) cur_b by simp_all
    have "a' = b" using u r False c by (simp add: update_def)
    moreover have "controller_inv b"
      using c d chan_b live_b wave_b by (auto simp: controller_inv_def)
    ultimately show ?thesis using bf(8) r False by simp
  next
    case True
    then have d: "mDeadStreams b = []" using bf(5) by simp
    define b1 where "b1 = (if mPendingURL b \<noteq> []
        then (open_stream (mPendingURL b) b)\<lparr>mPendingURL := []\<rparr> else b)"
    have na: "\<not> (mPendingURL b \<noteq> [] \<and> mCurrentInternetStreamp b \<noteq> None)"
      using pend_b by auto
    have inv1: "controller_inv b1"
      using d pend_b chan_b live_b wave_b
      by (auto simp: b1_def controller_inv_def open_stream_def new_stream_manager_def Let_def
            split: prod.splits)
    have cr1: "streams_created (mSystem b1) = streams_created (mSystem a) @
           (if mPendingURL a \<noteq> [] then [mPendingURL a] else [])"
      using bf(3,8) by (simp add: b1_def open_stream_created)
    have goal_if: "(if fst (releaseDeadStreams a) \<and> mPendingURL a \<noteq> [] then [mPendingURL a] else [])
        = (if mPendingURL a \<noteq> [] then [mPendingURL a] else [])"
      using r True by simp
    have u1: "update P a =
        (case mCurrentInternetStreamp b1 of
              None \<Rightarrow> Inr b1
            | Some h \<Rightarrow>
                (case getOpenState h (mSystem b1) of
                   Inl e \<Rightarrow> Inl e
                 | Inr (rep, s2) \<Rightarrow>
                     (let a2 = b1\<lparr>mSystem := s2\<rparr> in
                      if openstate rep = FMOD_OPENSTATE_READY
                      then Inr (update_channel P rep (update_ready h a2))
                      else if openstate rep = FMOD_OPENSTATE_ERROR
                      then Inr (stop a2)
                      else Inr (update_channel P rep a2))))"
    proof (cases "mPendingURL b = []")
      case e: True
      then have b1: "b1 = b" by (simp add: b1_def)
      show ?thesis unfolding b1 using r True e by (simp add: update_def Let_def)
    next
      case e: False
      then have c: "mCurrentInternetStreamp b = None" using pend_b by simp
      have b1: "b1 = (open_stream (mPendingURL b) b)\<lparr>mPendingURL := []\<rparr>"
        using e by (simp add: b1_def)
      show ?thesis unfolding b1 using r True e c by (simp add: update_def Let_def)
    qed
    show ?thesis
    proof (cases "mCurrentInternetStreamp b1")
      case None
      then have "a' = b1" using u u1 by simp
      then show ?thesis using inv1 cr1 goal_if by simp
    next
      case (Some h)
      obtain rep s2 where g: "getOpenState h (mSystem b1) = Inr (rep, s2)"
        using u u1 Some by (auto split: sum.splits)
      have s2: "streams_created s2 = streams_created (mSystem b1)"
        using g by (auto simp: getOpenState_def fmod_getOpenState_def split: option.splits)
      define a2 where "a2 = b1\<lparr>mSystem := s2\<rparr>"
      have inv2: "controller_inv a2" using inv1 by (simp add: a2_def)
      have cur2: "mCurrentInternetStreamp a2 \<noteq> None" using Some by (simp add: a2_def)
      have cr2: "streams_created (mSystem a2) = streams_created (mSystem b1)"
        using s2 by (simp add: a2_def)
      have a': "a' = (if openstate rep = FMOD_OPENSTATE_READY
                      then update_channel P rep (update_ready h a2)
                      else if openstate rep = FMOD_OPENSTATE_ERROR
                      then stop a2
                      else update_channel P rep a2)"
        using u u1 Some g by (simp add: Let_def a2_def split: if_splits)
      have "controller_inv a' \<and> streams_created (mSystem a') = streams_created (mSystem a2)"
      proof (cases "openstate rep = FMOD_OPENSTATE_READY")
        case True
        have "controller_inv (update_ready h a2)" using inv2 cur2 by (rule update_ready_inv)
        then have "controller_inv (update_channel P rep (update_ready h a2))"
          using same_control_inv [OF update_channel_same] by blast
        then show ?thesis
          using a' True by (simp add: update_channel_created update_ready_props(7))
      next
        case nr: False
        show ?thesis
        proof (cases "openstate rep = FMOD_OPENSTATE_ERROR")
          case True
          then show ?thesis using a' nr stop_inv [OF inv2] by (simp add: stop_created)
        next
          case False
          have "controller_inv (update_channel P rep a2)"
            using same_control_inv [OF update_channel_same] inv2 by blast
          then show ?thesis using a' nr False by (simp add: update_channel_created)
        qed
      qed
      then show ?thesis using cr2 cr1 goal_if by simp
    qed
  qed
qed

subsection \<open>Sequences of calls keep the invariant\<close>

lemma new_streaming_audio_inv: "controller_inv (new_streaming_audio sys dsp)"
  by (simp add: new_streaming_audio_def controller_inv_def wave_inv_def wave_init_def)

lemma pause_inv: "controller_inv a \<Longrightarrow> controller_inv (pause opt a)"
  by (simp add: pause_def Let_def stop_inv start_inv)

lemma getWaveData_inv:
  "controller_inv a \<Longrightarrow> getWaveData arr count stride a = Inr (r, arr1, a1) \<Longrightarrow> controller_inv a1"
  by (auto simp: getWaveData_def controller_inv_def wave_inv_def Let_def fmod_getMute_def
        WAVE_BUFFER_SIZE_def split: if_splits option.splits prod.splits)

lemma wave_write_inv: "wave_inv g \<Longrightarrow> wave_inv (wave_write xs g)"
  by (simp add: wave_write_def fold_wave_store_inv)

lemma waveDataCallback_inv: "wave_inv g \<Longrightarrow> wave_inv (waveDataCallback inb len ch g)"
  by (simp add: waveDataCallback_def wave_write_inv)

lemma exec_inv: "controller_inv a \<Longrightarrow> exec P c a = Inr a' \<Longrightarrow> controller_inv a'"
proof (cases c)
  case Update
  assume "controller_inv a" "exec P c a = Inr a'"
  then show ?thesis using update_props(2) [of a P a'] Update by simp
next
  case (GetWaveData arr count stride)
  assume "controller_inv a" "exec P c a = Inr a'"
  then show ?thesis using GetWaveData getWaveData_inv [of a arr count stride]
    by (auto split: sum.splits)
next
  case (WaveCallback inb len ch)
  assume "controller_inv a" "exec P c a = Inr a'"
  then show ?thesis using WaveCallback waveDataCallback_inv [of "wave a" inb len ch]
    by (auto simp: controller_inv_def)
qed (auto simp: stop_inv start_inv pause_inv setGain_inv)

lemma run_inv: "controller_inv a \<Longrightarrow> run P cs a = Inr a' \<Longrightarrow> controller_inv a'"
proof (induction cs arbitrary: a)
  case Nil
  then show ?case by simp
next
  case (Cons c cs)
  then show ?case by (auto split: sum.splits dest: exec_inv)
qed

subsection \<open>One stream at a time\<close>

text \<open>
  Claim C1. Let \<open>a\<close> be a state reached from the constructor by any sequence of calls
  (\<open>start\<close>, \<open>stop\<close>, \<open>update\<close>, and also \<open>pause\<close>, \<open>setGain\<close>, \<open>getWaveData\<close> and the
  callback), whatever the engine answers. Then every handle object that is allocated is the
  current one or is on the dead list, so at most one is current; while the dead list is
  not empty there is no current handle, and \<open>start\<close> with a non-empty URL puts the URL in
  the pending slot, leaves the current handle \<open>NULL\<close> and calls no \<open>createStream\<close>. An
  \<open>update\<close> never fails its assertions, and it calls \<open>createStream\<close> exactly when its pass
  over the dead list has emptied the list and a URL is pending, for that URL.
\<close>

theorem one_stream_at_a_time:
  assumes "run P cs (new_streaming_audio sys dsp) = Inr a"
  shows "controller_inv a \<and>
         live_managers a =
           (if mCurrentInternetStreamp a = None then 0 else 1) + length (mDeadStreams a) \<and>
         (mDeadStreams a \<noteq> [] \<longrightarrow>
            mCurrentInternetStreamp a = None \<and>
            (url \<noteq> [] \<longrightarrow>
               mPendingURL (start url a) = url \<and>
               mCurrentInternetStreamp (start url a) = None \<and>
               mDeadStreams (start url a) \<noteq> [] \<and>
               streams_created (mSystem (start url a)) = streams_created (mSystem a))) \<and>
         update P a \<noteq> Inl Assertion_failed \<and>
         (update P a = Inr a' \<longrightarrow>
            streams_created (mSystem a') =
              streams_created (mSystem a) @
                (if mDeadStreams (snd (releaseDeadStreams a)) = [] \<and> mPendingURL a \<noteq> []
                 then [mPendingURL a] else []))"
proof -
  have inv: "controller_inv a"
    using new_streaming_audio_inv assms by (rule run_inv)
  have d: "fst (releaseDeadStreams a) \<longleftrightarrow> mDeadStreams (snd (releaseDeadStreams a)) = []"
    by (rule releaseDeadStreams_fields)
  show ?thesis
    using inv update_props(1) [OF inv, of P] update_props(2) [OF inv, of P a']
      start_deferred [of url a] d
    by (auto simp: controller_inv_def)
qed

text \<open>
  The session \<open>start "a"\<close>, \<open>start "b"\<close> while "a" is CONNECTING: "a" is on the dead list and
  "b" is pending. A third \<open>start "c"\<close> would wait as well. The first \<open>update\<close> cannot drain
  the list and creates nothing; the second drains it and creates the stream for "b".
\<close>

lemma replaced_audio_state:
  "mDeadStreams replaced_audio \<noteq> []"
  "mPendingURL replaced_audio = ''b''"
  "streams_created (mSystem replaced_audio) = [''a'']"
  "\<not> isl (update unsigned_platform replaced_audio)"
  "mPendingURL (projr (update unsigned_platform replaced_audio)) = ''b''"
  "mDeadStreams (snd (releaseDeadStreams replaced_audio)) \<noteq> []"
  "\<not> isl (update unsigned_platform (projr (update unsigned_platform replaced_audio)))"
  "mDeadStreams (snd (releaseDeadStreams (projr (update unsigned_platform replaced_audio)))) = []"
  unfolding replaced_audio_def fresh_audio_def by code_simp+

theorem one_stream_at_a_time_witness:
  "run unsigned_platform [Start ''a'', Start ''b''] (new_streaming_audio (engine (connecting_until 10)) True)
     = Inr replaced_audio \<and>
   mDeadStreams replaced_audio \<noteq> [] \<and>
   mCurrentInternetStreamp replaced_audio = None \<and>
   live_managers replaced_audio = length (mDeadStreams replaced_audio) \<and>
   mPendingURL (start ''c'' replaced_audio) = ''c'' \<and>
   mCurrentInternetStreamp (start ''c'' replaced_audio) = None \<and>
   streams_created (mSystem (start ''c'' replaced_audio)) = [''a''] \<and>
   update unsigned_platform replaced_audio = Inr (projr (update unsigned_platform replaced_audio)) \<and>
   streams_created (mSystem (projr (update unsigned_platform replaced_audio))) = [''a''] \<and>
   run unsigned_platform [Start ''a'', Start ''b'', Update]
     (new_streaming_audio (engine (connecting_until 10)) True) =
     Inr (projr (update unsigned_platform replaced_audio)) \<and>
   update unsigned_platform (projr (update unsigned_platform replaced_audio)) =
     Inr (projr (update unsigned_platform (projr (update unsigned_platform replaced_audio)))) \<and>
   streams_created (mSystem (projr (update unsigned_platform
      (projr (update unsigned_platform replaced_audio))))) = [''a'', ''b'']"
proof -
  let ?P = unsigned_platform
  let ?ini = "new_streaming_audio (engine (connecting_until 10)) True"
  let ?B = replaced_audio
  let ?C = "projr (update ?P ?B)"
  let ?D = "projr (update ?P ?C)"
  have r1: "run ?P [Start ''a'', Start ''b''] ?ini = Inr ?B"
    by (simp add: replaced_audio_def fresh_audio_def)
  have u1: "update ?P ?B = Inr ?C" using replaced_audio_state(4) by (cases "update ?P ?B") simp_all
  have "run ?P [Start ''a'', Start ''b'', Update] ?ini =
          (case update ?P ?B of Inl e \<Rightarrow> Inl e | Inr a1 \<Rightarrow> run ?P [] a1)"
    by (simp add: replaced_audio_def fresh_audio_def)
  also have "\<dots> = Inr ?C" by (subst u1) simp
  finally have r2: "run ?P [Start ''a'', Start ''b'', Update] ?ini = Inr ?C" .
  have u2: "update ?P ?C = Inr ?D" using replaced_audio_state(7) by (cases "update ?P ?C") simp_all
  have c: "''c'' \<noteq> []" by simp
  note t1 = one_stream_at_a_time [OF r1, where url = "''c''" and a' = ?C]
  note t2 = one_stream_at_a_time [OF r2, where url = "''c''" and a' = ?D]
  show ?thesis
    using t1 t2 r1 r2 u1 u2 replaced_audio_state by simp
qed

subsection \<open>The remembered URL, and polling a handle without a stream\<close>

lemma update_URL:
  "update P a = Inr a' \<Longrightarrow>
   mURL a' = mURL a \<or> (mPendingURL a \<noteq> [] \<and> mURL a' = mPendingURL a)"
  using releaseDeadStreams_fields(3,4) [of a]
  by (auto simp: update_def Let_def open_stream_URL update_ready_props stop_fields
        same_controlD [OF update_channel_same]
        split: prod.splits if_splits option.splits sum.splits)

lemma start_URL:
  "mURL (start url a) = url \<or> (url \<noteq> [] \<and> mURL (start url a) = mURL a)"
  by (auto simp: start_def Let_def open_stream_URL stop_fields)

lemma getWaveData_URL:
  "getWaveData arr count stride a = Inr (r, arr1, a1) \<Longrightarrow> mURL a1 = mURL a"
  by (auto simp: getWaveData_def Let_def split: if_splits option.splits prod.splits)

lemma setGain_URL: "mURL (setGain v a) = mURL a"
  by (simp add: setGain_def Let_def split: option.splits)

lemma pause_URL: "mURL a \<noteq> [] \<Longrightarrow> mURL (pause opt a) = mURL a"
  using start_URL [of "mURL a" a]
  by (auto simp: pause_def Let_def getURL_def stop_fields)

text \<open>
  Claim C9. \<open>stop\<close> leaves the remembered URL (and the gain) as they are, so \<open>getURL\<close>
  answers the same before and after; what it clears is the pending URL, the metadata, the
  channel pointer and the current handle. Among all calls of the interface, only \<open>start\<close>
  with an empty URL takes the remembered URL from non-empty to empty.
\<close>

theorem stop_keeps_URL:
  "getURL (stop a) = getURL a \<and>
   mGain (stop a) = mGain a \<and>
   mPendingURL (stop a) = [] \<and>
   mMetaData (stop a) = None \<and>
   mFMODInternetStreamChannelp (stop a) = None \<and>
   mCurrentInternetStreamp (stop a) = None \<and>
   (exec P c a = Inr a' \<and> getURL a \<noteq> [] \<and> getURL a' = [] \<longrightarrow> c = Start [])"
proof -
  have "c = Start []" if e: "exec P c a = Inr a'" and n: "mURL a \<noteq> []" and z: "mURL a' = []"
  proof (cases c)
    case (Start url)
    then show ?thesis using e n z start_URL [of url a] by auto
  next
    case Stop
    then show ?thesis using e n z by (auto simp: stop_fields)
  next
    case Update
    then show ?thesis using e n z update_URL [of P a a'] by auto
  next
    case (Pause opt)
    then show ?thesis using e n z pause_URL [of a opt] by auto
  next
    case (SetGain v)
    then show ?thesis using e n z by (auto simp: setGain_URL)
  next
    case (GetWaveData arr count stride)
    then show ?thesis using e n z getWaveData_URL [of arr count stride a]
      by (auto split: sum.splits)
  next
    case (WaveCallback inb len ch)
    then show ?thesis using e n z by auto
  qed
  then show ?thesis by (auto simp: getURL_def stop_fields)
qed

text \<open>
  In the session of the two starts the remembered URL is "a" and "b" is pending: \<open>stop\<close>
  keeps the first and clears the second; \<open>start ""\<close> clears the remembered URL.
\<close>

lemma replaced_audio_URL:
  "getURL replaced_audio = ''a''"
  "getURL (start [] replaced_audio) = []"
  unfolding replaced_audio_def fresh_audio_def by code_simp+

theorem stop_keeps_URL_witness:
  "getURL replaced_audio = ''a'' \<and>
   getURL (stop replaced_audio) = ''a'' \<and>
   mPendingURL replaced_audio = ''b'' \<and>
   mPendingURL (stop replaced_audio) = [] \<and>
   exec unsigned_platform (Start []) replaced_audio = Inr (start [] replaced_audio) \<and>
   getURL (start [] replaced_audio) = []"
  using stop_keeps_URL [of replaced_audio unsigned_platform "Start []" "start [] replaced_audio"]
    replaced_audio_URL replaced_audio_state(2)
  by simp

text \<open>
  Claim C10. \<open>getOpenState\<close> of a handle goes through the stream pointer: it is the poll of
  the engine when the pointer is set, and a call through \<open>NULL\<close> when it is not. A handle
  whose \<open>createStream\<close> failed (stream pointer \<open>NULL\<close>, not ready) does become the current
  handle: \<open>start\<close> with a non-empty URL installs it whenever no dead stream is left. And
  \<open>update\<close> polls the current handle without looking at \<open>mReady\<close> or at the pointer: on
  such a state it ends in the call through \<open>NULL\<close>.
\<close>

theorem poll_without_stream:
  "(mInternetStream h = None \<longrightarrow> getOpenState h s = Inl Null_stream_dereferenced) \<and>
   (mInternetStream h = Some sound \<longrightarrow> getOpenState h s = Inr (fmod_getOpenState sound s)) \<and>
   (url \<noteq> [] \<and> mDeadStreams (stop a) = [] \<and>
    \<not> createStream_ok (script (mSystem (stop a))) (tick (mSystem (stop a))) \<longrightarrow>
      mCurrentInternetStreamp (start url a) =
        Some \<lparr>mStreamChannel = None, mInternetStream = None, mReady = False,
              mInternetStreamURL = url\<rparr> \<and>
      update P (start url a) = Inl Null_stream_dereferenced) \<and>
   (mCurrentInternetStreamp a = Some h \<and> mInternetStream h = None \<and>
    mDeadStreams a = [] \<and> mPendingURL a = [] \<longrightarrow>
      update P a = Inl Null_stream_dereferenced)"
proof -
  have last: "update P b = Inl Null_stream_dereferenced"
    if "mCurrentInternetStreamp b = Some k" "mInternetStream k = None"
      "mDeadStreams b = []" "mPendingURL b = []" for b k
    using that
    by (simp add: update_def releaseDeadStreams_def Let_def getOpenState_def)
  have st: "mCurrentInternetStreamp (start url a) =
        Some \<lparr>mStreamChannel = None, mInternetStream = None, mReady = False,
              mInternetStreamURL = url\<rparr> \<and>
      mDeadStreams (start url a) = [] \<and> mPendingURL (start url a) = []"
    if "url \<noteq> []" "mDeadStreams (stop a) = []"
      "\<not> createStream_ok (script (mSystem (stop a))) (tick (mSystem (stop a)))"
    using that stop_fields(4) [of a]
    by (simp add: start_def Let_def open_stream_def new_stream_manager_def fmod_createStream_def)
  show ?thesis
    using last [of a h] st last [of "start url a"]
    by (auto simp: getOpenState_def)
qed

text \<open>A fresh controller on an engine whose \<open>createStream\<close> fails: \<open>start\<close>, then \<open>update\<close>.\<close>

lemma failing_audio_state:
  "mDeadStreams (stop failing_audio) = []"
  "\<not> createStream_ok (script (mSystem (stop failing_audio))) (tick (mSystem (stop failing_audio)))"
  unfolding failing_audio_def failing_script_def by code_simp+

theorem poll_without_stream_witness:
  "run unsigned_platform [Start ''http://radio''] failing_audio =
     Inr (start ''http://radio'' failing_audio) \<and>
   mCurrentInternetStreamp (start ''http://radio'' failing_audio) =
     Some \<lparr>mStreamChannel = None, mInternetStream = None, mReady = False,
           mInternetStreamURL = ''http://radio''\<rparr> \<and>
   update unsigned_platform (start ''http://radio'' failing_audio) = Inl Null_stream_dereferenced \<and>
   run unsigned_platform [Start ''http://radio'', Update] failing_audio =
     Inl Null_stream_dereferenced \<and>
   getOpenState (open_handle 3) (engine failing_script) =
     Inr (fmod_getOpenState 3 (engine failing_script))"
proof -
  have u: "''http://radio'' \<noteq> []" by simp
  have o: "mInternetStream (open_handle 3) = Some 3" by (simp add: open_handle_def)
  note t = poll_without_stream [where url = "''http://radio''" and a = failing_audio
      and P = unsigned_platform and h = "open_handle 3" and sound = 3
      and s = "engine failing_script"]
  show ?thesis using t u o failing_audio_state by simp
qed

subsection \<open>The starvation policy\<close>

lemma policy_starving_paused:
  "paused s ch \<Longrightarrow>
   setPaused_calls (starvation_policy True p ch s) = setPaused_calls s \<and>
   calls (starvation_policy True p ch s) = calls s @ [Call_getPaused ch] \<and>
   paused (starvation_policy True p ch s) = paused s"
  by (simp add: starvation_policy_def fmod_getPaused_def fmod_setPaused_def)

lemma policy_starving_playing:
  "\<not> paused s ch \<Longrightarrow>
   setPaused_calls (starvation_policy True p ch s) = setPaused_calls s @ [(ch, True)] \<and>
   calls (starvation_policy True p ch s) = calls s @ [Call_getPaused ch, Call_setPaused ch True] \<and>
   paused (starvation_policy True p ch s) ch"
  by (simp add: starvation_policy_def fmod_getPaused_def fmod_setPaused_def)

lemma policy_fed:
  "p > 80 \<Longrightarrow>
   setPaused_calls (starvation_policy False p ch s) = setPaused_calls s @ [(ch, False)] \<and>
   calls (starvation_policy False p ch s) = calls s @ [Call_setPaused ch False] \<and>
   \<not> paused (starvation_policy False p ch s) ch"
  by (simp add: starvation_policy_def fmod_setPaused_def)

lemma starving_ticks_paused:
  "paused s ch \<Longrightarrow>
   setPaused_calls (starving_ticks ps ch s) = setPaused_calls s \<and>
   paused (starving_ticks ps ch s) ch"
proof (induction ps arbitrary: s)
  case Nil
  then show ?case by (simp add: starving_ticks_def)
next
  case (Cons p ps)
  have "paused (starvation_policy True p ch s) ch"
    using policy_starving_paused [OF Cons.prems, of p] Cons.prems by simp
  from Cons.IH [OF this] policy_starving_paused [OF Cons.prems, of p]
  show ?case by (simp add: starving_ticks_def)
qed

lemma starving_ticks_calls:
  "setPaused_calls (starving_ticks ps ch s) =
     setPaused_calls s @ (if ps \<noteq> [] \<and> \<not> paused s ch then [(ch, True)] else [])"
proof (cases ps)
  case Nil
  then show ?thesis by (simp add: starving_ticks_def)
next
  case (Cons p rest)
  show ?thesis
  proof (cases "paused s ch")
    case True
    then show ?thesis using starving_ticks_paused [of s ch ps] by simp
  next
    case False
    have "starving_ticks ps ch s = starving_ticks rest ch (starvation_policy True p ch s)"
      using Cons by (simp add: starving_ticks_def)
    then show ?thesis
      using policy_starving_playing [OF False, of p]
        starving_ticks_paused [of "starvation_policy True p ch s" ch rest] Cons False
      by simp
  qed
qed

lemma policy_setPaused_calls:
  "setPaused_calls (starvation_policy st p ch s) =
     setPaused_calls s @
       (if st then (if paused s ch then [] else [(ch, True)])
        else if p > 80 then [(ch, False)] else [])"
  by (simp add: starvation_policy_def fmod_getPaused_def fmod_setPaused_def)

lemma process_tag_paused:
  "setPaused_calls (mSystem (process_tag P ch tag a)) = setPaused_calls (mSystem a) \<and>
   paused (mSystem (process_tag P ch tag a)) = paused (mSystem a)"
  by (simp add: process_tag_def fmod_setFrequency_def)

lemma tag_loop_paused:
  "setPaused_calls (mSystem (tag_loop P ch is a)) = setPaused_calls (mSystem a) \<and>
   paused (mSystem (tag_loop P ch is a)) = paused (mSystem a)"
proof (induction "is" arbitrary: a)
  case Nil
  show ?case by simp
next
  case (Cons i rest)
  show ?case
    by (simp add: Let_def fmod_getTag_def Cons.IH process_tag_paused split: option.splits)
qed

lemma update_channel_policy:
  assumes "mFMODInternetStreamChannelp a = Some ch"
    and "getCurrentSound_ok (script (mSystem a)) (tick (mSystem a))"
  shows "\<exists>s. mSystem (update_channel P rep a) =
               starvation_policy (starving rep) (percentbuffered rep) ch s \<and>
             setPaused_calls s = setPaused_calls (mSystem a) \<and> paused s = paused (mSystem a)"
proof -
  let ?a1 = "if mMetaData a = None then a\<lparr>mMetaData := Some Map.empty\<rparr> else a"
  have s1: "mSystem ?a1 = mSystem a" by simp
  let ?s1 = "record_call (Call_getCurrentSound ch) (mSystem a)"
  obtain nt s2 where n: "fmod_getNumTags ?s1 = (nt, s2)" by (cases "fmod_getNumTags ?s1")
  have s2: "setPaused_calls s2 = setPaused_calls (mSystem a)" "paused s2 = paused (mSystem a)"
    using n by (auto simp: fmod_getNumTags_def)
  let ?a3 = "?a1\<lparr>mSystem := s2\<rparr>"
  let ?a4 = "case nt of None \<Rightarrow> ?a3
        | Some (tagcount, dirtytagcount) \<Rightarrow>
            if dirtytagcount \<noteq> 0
            then tag_loop P ch [0..<nat tagcount] (?a3\<lparr>mMetaData := Some Map.empty\<rparr>)
            else ?a3"
  have a4: "setPaused_calls (mSystem ?a4) = setPaused_calls (mSystem a) \<and>
            paused (mSystem ?a4) = paused (mSystem a)"
    using s2 by (auto simp: tag_loop_paused split: option.splits)
  have "update_channel P rep a =
          ?a4\<lparr>mSystem := starvation_policy (starving rep) (percentbuffered rep) ch (mSystem ?a4)\<rparr>"
    using assms n by (simp add: update_channel_def Let_def fmod_getCurrentSound_def)
  then have "mSystem (update_channel P rep a) =
          starvation_policy (starving rep) (percentbuffered rep) ch (mSystem ?a4)"
    by simp
  then show ?thesis using a4 by blast
qed

lemma update_playing:
  assumes cur: "mCurrentInternetStreamp a = Some h" and st: "mInternetStream h = Some sound"
    and ch: "mFMODInternetStreamChannelp a = Some ch"
    and d: "mDeadStreams a = []" and pe: "mPendingURL a = []"
    and ne: "openstate (getOpenState_res (script (mSystem a)) (tick (mSystem a))) \<noteq>
             FMOD_OPENSTATE_ERROR"
    and cs: "getCurrentSound_ok (script (mSystem a)) (Suc (tick (mSystem a)))"
  shows "\<exists>a'. update P a = Inr a' \<and>
           setPaused_calls (mSystem a') =
             setPaused_calls (mSystem a) @
               (if starving (getOpenState_res (script (mSystem a)) (tick (mSystem a)))
                then (if paused (mSystem a) ch then [] else [(ch, True)])
                else if percentbuffered (getOpenState_res (script (mSystem a)) (tick (mSystem a))) > 80
                     then [(ch, False)] else [])"
proof -
  let ?rep = "getOpenState_res (script (mSystem a)) (tick (mSystem a))"
  let ?s2 = "record_call (Call_getOpenState sound) (mSystem a)"
  let ?a2 = "a\<lparr>mSystem := ?s2\<rparr>"
  have rd: "releaseDeadStreams a = (True, a)"
    using d by (simp add: releaseDeadStreams_def)
  have g: "getOpenState h (mSystem a) = Inr (?rep, ?s2)"
    using st by (simp add: getOpenState_def fmod_getOpenState_def)
  have ur: "update_ready h ?a2 = ?a2" using ch by (simp add: update_ready_def)
  have u: "update P a = Inr (update_channel P ?rep ?a2)"
    using rd pe cur g ne ur by (simp add: update_def Let_def)
  have "mFMODInternetStreamChannelp ?a2 = Some ch" using ch by simp
  moreover have "getCurrentSound_ok (script (mSystem ?a2)) (tick (mSystem ?a2))"
    using cs by simp
  ultimately obtain s where s: "mSystem (update_channel P ?rep ?a2) =
               starvation_policy (starving ?rep) (percentbuffered ?rep) ch s"
      "setPaused_calls s = setPaused_calls (mSystem ?a2)" "paused s = paused (mSystem ?a2)"
    using update_channel_policy [of ?a2 ch P ?rep] by blast
  have "setPaused_calls (mSystem (update_channel P ?rep ?a2)) =
          setPaused_calls (mSystem a) @
               (if starving ?rep then (if paused (mSystem a) ch then [] else [(ch, True)])
                else if percentbuffered ?rep > 80 then [(ch, False)] else [])"
    using s by (simp add: policy_setPaused_calls)
  then show ?thesis using u by blast
qed

text \<open>
  Claim C5. The policy block on a channel \<open>ch\<close>. Starving and not paused: the pause flag is
  read and the channel is paused, once. Starving and already paused: the flag is read and
  no pause call is made. Over any number of consecutive starving ticks the channel receives
  at most one pause call: exactly one if it was not paused at the first tick, none
  otherwise. Not starving and more than 80 percent buffered: the channel is unpaused. Not
  starving and at most 80 percent: nothing is done. In \<open>update\<close> the block is reached when a
  channel is held and its current sound is obtained; on a playing state whose poll does not
  report an error, the \<open>setPaused\<close> calls of the whole \<open>update\<close> are those of the policy.
\<close>

theorem starvation_pauses_once:
  "(\<not> paused s ch \<longrightarrow>
      calls (starvation_policy True p ch s) =
        calls s @ [Call_getPaused ch, Call_setPaused ch True] \<and>
      paused (starvation_policy True p ch s) ch) \<and>
   (paused s ch \<longrightarrow>
      calls (starvation_policy True p ch s) = calls s @ [Call_getPaused ch] \<and>
      paused (starvation_policy True p ch s) ch) \<and>
   setPaused_calls (starving_ticks ps ch s) =
     setPaused_calls s @ (if ps \<noteq> [] \<and> \<not> paused s ch then [(ch, True)] else []) \<and>
   (p > 80 \<longrightarrow>
      calls (starvation_policy False p ch s) = calls s @ [Call_setPaused ch False] \<and>
      \<not> paused (starvation_policy False p ch s) ch) \<and>
   (p \<le> 80 \<longrightarrow> starvation_policy False p ch s = s) \<and>
   (mCurrentInternetStreamp a = Some h \<and> mInternetStream h = Some sound \<and>
    mFMODInternetStreamChannelp a = Some c \<and> mDeadStreams a = [] \<and> mPendingURL a = [] \<and>
    openstate (getOpenState_res (script (mSystem a)) (tick (mSystem a))) \<noteq> FMOD_OPENSTATE_ERROR \<and>
    getCurrentSound_ok (script (mSystem a)) (Suc (tick (mSystem a))) \<longrightarrow>
      (\<exists>a'. update P a = Inr a' \<and>
         setPaused_calls (mSystem a') =
           setPaused_calls (mSystem a) @
             (if starving (getOpenState_res (script (mSystem a)) (tick (mSystem a)))
              then (if paused (mSystem a) c then [] else [(c, True)])
              else if percentbuffered (getOpenState_res (script (mSystem a)) (tick (mSystem a))) > 80
                   then [(c, False)] else [])))"
  using policy_starving_paused [of s ch p] policy_starving_playing [of s ch p]
    policy_fed [of p ch s] starving_ticks_calls [of ps ch s]
    update_playing [of a h sound c P]
  by (auto simp: starvation_policy_def)

text \<open>
  On a fresh engine: two starving ticks, three starving ticks, a fed tick after a starving
  one. And the session started on the starving engine, which the first \<open>update\<close> has
  paused: a second \<open>update\<close> makes no further \<open>setPaused\<close> call.
\<close>

lemma starving_audio_state:
  "mCurrentInternetStreamp starving_audio =
     Some \<lparr>mStreamChannel = Some 7, mInternetStream = Some 4, mReady = True,
           mInternetStreamURL = ''a''\<rparr>"
  "mFMODInternetStreamChannelp starving_audio = Some 7"
  "mDeadStreams starving_audio = []"
  "mPendingURL starving_audio = []"
  "openstate (getOpenState_res (script (mSystem starving_audio)) (tick (mSystem starving_audio)))
     \<noteq> FMOD_OPENSTATE_ERROR"
  "getCurrentSound_ok (script (mSystem starving_audio)) (Suc (tick (mSystem starving_audio)))"
  "starving (getOpenState_res (script (mSystem starving_audio)) (tick (mSystem starving_audio)))"
  "paused (mSystem starving_audio) 7"
  "setPaused_calls (mSystem starving_audio) = [(7, False), (7, True)]"
  unfolding starving_audio_def starving_script_def by code_simp+

theorem starvation_pauses_once_witness:
  "calls (starvation_policy True 10 7 (engine starving_script)) =
     [Call_getPaused 7, Call_setPaused 7 True] \<and>
   paused (starvation_policy True 10 7 (engine starving_script)) 7 \<and>
   calls (starvation_policy True 10 7 (starvation_policy True 10 7 (engine starving_script))) =
     [Call_getPaused 7, Call_setPaused 7 True, Call_getPaused 7] \<and>
   setPaused_calls (starving_ticks [10, 20, 30] 7 (engine starving_script)) = [(7, True)] \<and>
   calls (starvation_policy False 90 7 (starvation_policy True 10 7 (engine starving_script))) =
     [Call_getPaused 7, Call_setPaused 7 True, Call_setPaused 7 False] \<and>
   \<not> paused (starvation_policy False 90 7 (starvation_policy True 10 7 (engine starving_script))) 7 \<and>
   starvation_policy False 50 7 (engine starving_script) = engine starving_script \<and>
   paused (mSystem starving_audio) 7 \<and>
   setPaused_calls (mSystem starving_audio) = [(7, False), (7, True)] \<and>
   setPaused_calls (mSystem (projr (update unsigned_platform starving_audio))) =
     [(7, False), (7, True)]"
proof -
  let ?e = "engine starving_script"
  let ?e1 = "starvation_policy True 10 7 ?e"
  let ?h = "\<lparr>mStreamChannel = Some 7, mInternetStream = Some 4, mReady = True,
            mInternetStreamURL = ''a''\<rparr>"
  have e: "\<not> paused ?e 7" "calls ?e = []" "setPaused_calls ?e = []"
    by (simp_all add: engine_def setPaused_calls_def)
  note t0 = starvation_pauses_once [where s = ?e and ch = 7 and p = 10 and ps = "[10, 20, 30]"
      and a = starving_audio and h = ?h and sound = 4 and c = 7 and P = unsigned_platform]
  have p1: "paused ?e1 7" and c1: "calls ?e1 = [Call_getPaused 7, Call_setPaused 7 True]"
    using t0 e by simp_all
  note t1 = starvation_pauses_once [where s = ?e1 and ch = 7 and p = 10 and ps = "[]"
      and a = starving_audio and h = ?h and sound = 4 and c = 7 and P = unsigned_platform]
  note t2 = starvation_pauses_once [where s = ?e1 and ch = 7 and p = 90 and ps = "[]"
      and a = starving_audio and h = ?h and sound = 4 and c = 7 and P = unsigned_platform]
  note t3 = starvation_pauses_once [where s = ?e and ch = 7 and p = 50 and ps = "[]"
      and a = starving_audio and h = ?h and sound = 4 and c = 7 and P = unsigned_platform]
  have u: "\<exists>a'. update unsigned_platform starving_audio = Inr a' \<and>
             setPaused_calls (mSystem a') = [(7, False), (7, True)]"
    using t0 starving_audio_state by simp
  then have u': "setPaused_calls (mSystem (projr (update unsigned_platform starving_audio))) =
     [(7, False), (7, True)]"
    by auto
  have a: "calls ?e1 = [Call_getPaused 7, Call_setPaused 7 True] \<and> paused ?e1 7 \<and>
           setPaused_calls (starving_ticks [10, 20, 30] 7 ?e) = [(7, True)]"
    using t0 e by simp
  have b: "calls (starvation_policy True 10 7 ?e1) =
             [Call_getPaused 7, Call_setPaused 7 True, Call_getPaused 7]"
    using t1 p1 c1 by simp
  have c: "calls (starvation_policy False 90 7 ?e1) =
             [Call_getPaused 7, Call_setPaused 7 True, Call_setPaused 7 False] \<and>
           \<not> paused (starvation_policy False 90 7 ?e1) 7"
    using t2 c1 by simp
  have d: "starvation_policy False 50 7 ?e = ?e" using t3 by simp
  show ?thesis using a b c d u' starving_audio_state(8,9) by simp
qed

subsection \<open>Reading the waveform\<close>












end
